theory Spec2Isabelle
  imports Complex_Main
begin

section \<open>Doubles\<close>

text \<open>
  The integrator computes in C \<^verbatim>\<open>double\<close>. The model keeps the special values of
  IEEE 754 arithmetic, because the source divides by quantities that can be zero
  (\<^verbatim>\<open>t_closest/dt\<close>, \<^verbatim>\<open>-1./x\<close>) and compares the results, and a comparison with a NaN
  is false. Finite values are exact reals: rounding, overflow and underflow are not
  modelled. Zero has no sign; a zero divisor is read as \<^verbatim>\<open>+0.\<close>, which is what the
  source has wherever it divides by zero: \<^verbatim>\<open>fabs(dt)\<close>, a sum of squares, \<^verbatim>\<open>x*x\<close>,
  and \<^verbatim>\<open>d-ri\<close> with \<^verbatim>\<open>d == ri\<close>.
\<close>

datatype double = Fin real | PInf | NInf | NaN

instantiation double :: "{plus,minus,uminus,times,inverse,ord}"
begin

fun uminus_double :: "double \<Rightarrow> double" where
  "uminus_double (Fin a) = Fin (- a)"
| "uminus_double PInf = NInf"
| "uminus_double NInf = PInf"
| "uminus_double NaN = NaN"

fun plus_double :: "double \<Rightarrow> double \<Rightarrow> double" where
  "plus_double (Fin a) (Fin b) = Fin (a + b)"
| "plus_double NaN _ = NaN"
| "plus_double _ NaN = NaN"
| "plus_double PInf NInf = NaN"
| "plus_double NInf PInf = NaN"
| "plus_double PInf _ = PInf"
| "plus_double NInf _ = NInf"
| "plus_double _ PInf = PInf"
| "plus_double _ NInf = NInf"

definition minus_double :: "double \<Rightarrow> double \<Rightarrow> double" where
  "minus_double a b = a + (- b)"

fun times_double :: "double \<Rightarrow> double \<Rightarrow> double" where
  "times_double (Fin a) (Fin b) = Fin (a * b)"
| "times_double NaN _ = NaN"
| "times_double _ NaN = NaN"
| "times_double PInf (Fin b) = (if b = 0 then NaN else if 0 < b then PInf else NInf)"
| "times_double NInf (Fin b) = (if b = 0 then NaN else if 0 < b then NInf else PInf)"
| "times_double (Fin a) PInf = (if a = 0 then NaN else if 0 < a then PInf else NInf)"
| "times_double (Fin a) NInf = (if a = 0 then NaN else if 0 < a then NInf else PInf)"
| "times_double PInf PInf = PInf"
| "times_double PInf NInf = NInf"
| "times_double NInf PInf = NInf"
| "times_double NInf NInf = PInf"

fun divide_double :: "double \<Rightarrow> double \<Rightarrow> double" where
  "divide_double (Fin a) (Fin b) =
     (if b \<noteq> 0 then Fin (a / b)
      else if a = 0 then NaN else if 0 < a then PInf else NInf)"
| "divide_double NaN _ = NaN"
| "divide_double _ NaN = NaN"
| "divide_double (Fin a) PInf = Fin 0"
| "divide_double (Fin a) NInf = Fin 0"
| "divide_double PInf (Fin b) = (if 0 \<le> b then PInf else NInf)"
| "divide_double NInf (Fin b) = (if 0 \<le> b then NInf else PInf)"
| "divide_double PInf PInf = NaN"
| "divide_double PInf NInf = NaN"
| "divide_double NInf PInf = NaN"
| "divide_double NInf NInf = NaN"

fun inverse_double :: "double \<Rightarrow> double" where
  "inverse_double (Fin b) = (if b \<noteq> 0 then Fin (1 / b) else PInf)"
| "inverse_double PInf = Fin 0"
| "inverse_double NInf = Fin 0"
| "inverse_double NaN = NaN"

fun less_double :: "double \<Rightarrow> double \<Rightarrow> bool" where
  "less_double (Fin a) (Fin b) = (a < b)"
| "less_double NaN _ = False"
| "less_double _ NaN = False"
| "less_double _ NInf = False"
| "less_double PInf _ = False"
| "less_double _ _ = True"

fun less_eq_double :: "double \<Rightarrow> double \<Rightarrow> bool" where
  "less_eq_double (Fin a) (Fin b) = (a \<le> b)"
| "less_eq_double NaN _ = False"
| "less_eq_double _ NaN = False"
| "less_eq_double NInf _ = True"
| "less_eq_double _ PInf = True"
| "less_eq_double _ _ = False"

instance ..

end

text \<open>The functions of \<^verbatim>\<open>math.h\<close> that the source calls.\<close>

fun fabs :: "double \<Rightarrow> double" where
  "fabs (Fin a) = Fin \<bar>a\<bar>"
| "fabs PInf = PInf"
| "fabs NInf = PInf"
| "fabs NaN = NaN"

fun signbit :: "double \<Rightarrow> bool" where
  "signbit (Fin a) = (a < 0)"
| "signbit NInf = True"
| "signbit PInf = False"
| "signbit NaN = False"

definition copysign :: "double \<Rightarrow> double \<Rightarrow> double" where
  "copysign a b = (if signbit b then - fabs a else fabs a)"

fun c_sqrt :: "double \<Rightarrow> double" where
  "c_sqrt (Fin a) = (if a < 0 then NaN else Fin (sqrt a))"
| "c_sqrt PInf = PInf"
| "c_sqrt NInf = NaN"
| "c_sqrt NaN = NaN"

fun c_exp :: "double \<Rightarrow> double" where
  "c_exp (Fin a) = Fin (exp a)"
| "c_exp PInf = PInf"
| "c_exp NInf = Fin 0"
| "c_exp NaN = NaN"

text \<open>The macros \<^verbatim>\<open>MIN\<close> and \<^verbatim>\<open>MAX\<close> of the source (names that Isabelle reserves), on doubles.\<close>

definition c_MIN :: "double \<Rightarrow> double \<Rightarrow> double" where
  "c_MIN a b = (if a > b then b else a)"

definition c_MAX :: "double \<Rightarrow> double \<Rightarrow> double" where
  "c_MAX a b = (if a > b then a else b)"

fun is_fin :: "double \<Rightarrow> bool" where
  "is_fin (Fin a) = True"
| "is_fin PInf = False"
| "is_fin NInf = False"
| "is_fin NaN = False"

fun val :: "double \<Rightarrow> real" where
  "val (Fin a) = a"
| "val PInf = 0"
| "val NInf = 0"
| "val NaN = 0"

section \<open>The switching function\<close>

text \<open>
  The static helpers \<^verbatim>\<open>f\<close> and \<^verbatim>\<open>dfdy\<close> of the source are \<open>L_f\<close> and \<open>L_dfdy\<close> here.
  The simulation pointer that \<^verbatim>\<open>reb_integrator_mercurana_L_infinity\<close> and
  \<^verbatim>\<open>reb_integrator_mercurana_dLdr_infinity\<close> take is not used by them and is left out.
  The model has one zero. For the argument \<^verbatim>\<open>-0.\<close> the test \<^verbatim>\<open>x<0\<close> of the source fails
  and \<^verbatim>\<open>f\<close> returns \<^verbatim>\<open>exp(+inf)\<close>; the argument is \<^verbatim>\<open>-0.\<close> when \<^verbatim>\<open>d == ri\<close> and
  \<^verbatim>\<open>ro < ri\<close>, or when the quotient underflows. These inputs are outside of the model, and
  nothing is stated about them.
\<close>

definition L_f :: "double \<Rightarrow> double" where
  "L_f x = (if x < Fin 0 then Fin 0 else c_exp (Fin (- 1) / x))"

definition L_dfdy :: "double \<Rightarrow> double" where
  "L_dfdy x = (if x < Fin 0 then Fin 0 else c_exp (Fin (- 1) / x) / (x * x))"

definition reb_integrator_mercurana_L_infinity :: "double \<Rightarrow> double \<Rightarrow> double \<Rightarrow> double" where
  "reb_integrator_mercurana_L_infinity d ri ro =
     (let y = (d - ri) / (ro - ri) in
      if y < Fin 0 then Fin 0
      else if y > Fin 1 then Fin 1
      else L_f y / (L_f y + L_f (Fin 1 - y)))"

definition reb_integrator_mercurana_dLdr_infinity :: "double \<Rightarrow> double \<Rightarrow> double \<Rightarrow> double" where
  "reb_integrator_mercurana_dLdr_infinity d ri ro =
     (let y = (d - ri) / (ro - ri);
          dydr = Fin 1 / (ro - ri) in
      if y < Fin 0 then Fin 0
      else if y > Fin 1 then Fin 0
      else dydr * (L_dfdy y / (L_f y + L_f (Fin 1 - y))
                   - L_f y / (L_f y + L_f (Fin 1 - y)) / (L_f y + L_f (Fin 1 - y))
                     * (L_dfdy y - L_dfdy (Fin 1 - y))))"

section \<open>Particles and the encounter predictor\<close>

text \<open>
  \<^verbatim>\<open>struct reb_particle\<close>, with the fields the integrator reads and writes. The field
  \<^verbatim>\<open>x\<close> of the source is \<open>p_x\<close> here, and so on.
\<close>

record reb_particle =
  p_x :: double
  p_y :: double
  p_z :: double
  p_vx :: double
  p_vy :: double
  p_vz :: double
  p_ax :: double
  p_ay :: double
  p_az :: double
  p_m :: double
  p_r :: double

definition reb_mercurana_predict_rmin2 :: "reb_particle \<Rightarrow> reb_particle \<Rightarrow> double \<Rightarrow> double" where
  "reb_mercurana_predict_rmin2 p1 p2 dt0 =
     (let dts = copysign (Fin 1) dt0;
          dt = fabs dt0;
          dx1 = p_x p1 - p_x p2;
          dy1 = p_y p1 - p_y p2;
          dz1 = p_z p1 - p_z p2;
          r1 = dx1 * dx1 + dy1 * dy1 + dz1 * dz1;
          dvx1 = dts * (p_vx p1 - p_vx p2);
          dvy1 = dts * (p_vy p1 - p_vy p2);
          dvz1 = dts * (p_vz p1 - p_vz p2);
          dx2 = dx1 + dt * dvx1;
          dy2 = dy1 + dt * dvy1;
          dz2 = dz1 + dt * dvz1;
          r2 = dx2 * dx2 + dy2 * dy2 + dz2 * dz2;
          t_closest = (dx1 * dvx1 + dy1 * dvy1 + dz1 * dvz1)
                      / (dvx1 * dvx1 + dvy1 * dvy1 + dvz1 * dvz1);
          dx3 = dx1 + t_closest * dvx1;
          dy3 = dy1 + t_closest * dvy1;
          dz3 = dz1 + t_closest * dvz1;
          r3 = dx3 * dx3 + dy3 * dy3 + dz3 * dz3;
          rmin2 = c_MIN r1 r2 in
      if t_closest / dt \<ge> Fin 0 \<and> t_closest / dt \<le> Fin 1 then c_MIN rmin2 r3 else rmin2)"

definition reb_mercurana_predict_rmin2_drifted ::
  "reb_particle \<Rightarrow> reb_particle \<Rightarrow> double \<Rightarrow> double \<Rightarrow> double" where
  "reb_mercurana_predict_rmin2_drifted p1 p2 dt p2drift =
     (let p2drifted = p2\<lparr>p_x := p_x p2 + p2drift * p_vx p2\<rparr>;
          p2drifted = p2drifted\<lparr>p_y := p_y p2drifted + p2drift * p_vy p2drifted\<rparr>;
          p2drifted = p2drifted\<lparr>p_z := p_z p2drifted + p2drift * p_vz p2drifted\<rparr> in
      reb_mercurana_predict_rmin2 p1 p2drifted dt)"

text \<open>A particle whose position and velocity are finite doubles.\<close>

definition finite_pv :: "reb_particle \<Rightarrow> bool" where
  "finite_pv p \<longleftrightarrow> is_fin (p_x p) \<and> is_fin (p_y p) \<and> is_fin (p_z p)
     \<and> is_fin (p_vx p) \<and> is_fin (p_vy p) \<and> is_fin (p_vz p)"

text \<open>
  The quantities the specification of the predictor speaks of, as real numbers: the squared
  separation of two particles after a linear drift of duration \<open>tau\<close>, the sign of the drift
  interval \<open>d\<close> being absorbed into the relative velocity, and the analytic extremum
  \<open>tau_star = (\<Delta>r \<cdot> \<Delta>v) / |\<Delta>v|\<^sup>2\<close>.
\<close>

definition drift_sign :: "real \<Rightarrow> real" where
  "drift_sign d = (if d < 0 then - 1 else 1)"

definition separation2 :: "reb_particle \<Rightarrow> reb_particle \<Rightarrow> real \<Rightarrow> real \<Rightarrow> real" where
  "separation2 p1 p2 d tau =
     (val (p_x p1) - val (p_x p2) + tau * (drift_sign d * (val (p_vx p1) - val (p_vx p2))))\<^sup>2
   + (val (p_y p1) - val (p_y p2) + tau * (drift_sign d * (val (p_vy p1) - val (p_vy p2))))\<^sup>2
   + (val (p_z p1) - val (p_z p2) + tau * (drift_sign d * (val (p_vz p1) - val (p_vz p2))))\<^sup>2"

definition tau_star :: "reb_particle \<Rightarrow> reb_particle \<Rightarrow> real \<Rightarrow> real" where
  "tau_star p1 p2 d =
     ((val (p_x p1) - val (p_x p2)) * (drift_sign d * (val (p_vx p1) - val (p_vx p2)))
      + (val (p_y p1) - val (p_y p2)) * (drift_sign d * (val (p_vy p1) - val (p_vy p2)))
      + (val (p_z p1) - val (p_z p2)) * (drift_sign d * (val (p_vz p1) - val (p_vz p2))))
     / ((drift_sign d * (val (p_vx p1) - val (p_vx p2)))\<^sup>2
        + (drift_sign d * (val (p_vy p1) - val (p_vy p2)))\<^sup>2
        + (drift_sign d * (val (p_vz p1) - val (p_vz p2)))\<^sup>2)"

section \<open>The simulation and the integrator state\<close>

text \<open>
  The header \<^verbatim>\<open>rebound.h\<close> is not part of the sources at hand; the fields below are the ones
  that \<^verbatim>\<open>integrator_mercurana.c\<close> reads and writes, with the types under which it uses
  them. The fields of \<^verbatim>\<open>struct reb_simulation\<close> and of its member \<^verbatim>\<open>ri_mercurana\<close> are kept
  in one record. A field of the simulation whose name would hide a variable (\<^verbatim>\<open>N\<close>, \<^verbatim>\<open>t\<close>,
  \<^verbatim>\<open>dt\<close>, \<^verbatim>\<open>dt_last_done\<close>) has the prefix \<open>sim_\<close>; the function pointers \<^verbatim>\<open>L\<close> and
  \<^verbatim>\<open>dLdr\<close> are \<open>rim_L\<close> and \<open>rim_dLdr\<close>.

  An array that the source reaches through a pointer is a function from the index to the
  value: every index can be read and written, and the sizes that \<^verbatim>\<open>part1\<close> allocated are
  not part of the state. A read of a slot that was never written returns whatever the
  state holds there, as a read of memory fresh from \<^verbatim>\<open>malloc\<close> does. Counts and indices
  are natural numbers; \<^verbatim>\<open>Nmaxshells\<close> is an integer, so that the test for a number of shells
  that is not positive can be stated.
\<close>

datatype REB_COLLISION = REB_COLLISION_NONE | REB_COLLISION_DIRECT | REB_COLLISION_OTHER

datatype REB_GRAVITY = REB_GRAVITY_NONE | REB_GRAVITY_BASIC | REB_GRAVITY_MERCURANA | REB_GRAVITY_OTHER

datatype REB_EOS_TYPE = REB_EOS_LF | REB_EOS_LF4 | REB_EOS_LF6 | REB_EOS_LF8 | REB_EOS_LF4_2
  | REB_EOS_LF8_6_4 | REB_EOS_PMLF4 | REB_EOS_PMLF6 | REB_EOS_PLF7_6_4

record reb_ghostbox =
  shiftx :: double
  shifty :: double
  shiftz :: double
  shiftvx :: double
  shiftvy :: double
  shiftvz :: double

record reb_collision =
  c_p1 :: nat
  c_p2 :: nat
  c_gb :: reb_ghostbox

text \<open>
  Modelled from the spec: the host's warning and error channel. \<^verbatim>\<open>reb_warning\<close> and
  \<^verbatim>\<open>reb_error\<close> are functions of the host; each call appends its message to a log.
\<close>

datatype message = Warning string | Error string

record reb_simulation =
  particles :: "nat \<Rightarrow> reb_particle"
  sim_N :: nat
  sim_t :: double
  sim_dt :: double
  sim_dt_last_done :: double
  collision :: REB_COLLISION
  gravity :: REB_GRAVITY
  collisions :: "nat \<Rightarrow> reb_collision"
  collisions_allocatedN :: nat
  var_config_N :: nat
  messages :: "message list"
  phi0 :: REB_EOS_TYPE
  phi1 :: REB_EOS_TYPE
  n0 :: nat
  n1 :: nat
  kappa :: double
  safe_mode :: nat
  Nmaxshells :: int
  Nmaxshellsused :: nat
  N_dominant :: nat
  allocatedN :: nat
  is_synchronized :: nat
  rim_L :: "(double \<Rightarrow> double \<Rightarrow> double \<Rightarrow> double) option"
  rim_dLdr :: "(double \<Rightarrow> double \<Rightarrow> double \<Rightarrow> double) option"
  dcrit :: "nat \<Rightarrow> nat \<Rightarrow> double"
  map_encounter :: "nat \<Rightarrow> nat \<Rightarrow> nat"
  map_dominant :: "nat \<Rightarrow> nat \<Rightarrow> nat"
  map_subdominant :: "nat \<Rightarrow> nat \<Rightarrow> nat"
  shellN_encounter :: "nat \<Rightarrow> nat"
  shellN_dominant :: "nat \<Rightarrow> nat"
  shellN_subdominant :: "nat \<Rightarrow> nat"
  inshell_encounter :: "nat \<Rightarrow> nat"
  inshell_dominant :: "nat \<Rightarrow> nat"
  inshell_subdominant :: "nat \<Rightarrow> nat"
  maxdrift_encounter :: "nat \<Rightarrow> double"
  maxdrift_dominant :: "nat \<Rightarrow> double"
  t_drifted :: "nat \<Rightarrow> double"
  p0 :: "nat \<Rightarrow> reb_particle"
  collisions_N :: nat

definition reb_warning :: "reb_simulation \<Rightarrow> string \<Rightarrow> reb_simulation" where
  "reb_warning r msg = r\<lparr>messages := messages r @ [Warning msg]\<rparr>"

definition reb_error :: "reb_simulation \<Rightarrow> string \<Rightarrow> reb_simulation" where
  "reb_error r msg = r\<lparr>messages := messages r @ [Error msg]\<rparr>"

text \<open>The write \<^verbatim>\<open>a[s][k] = v\<close> to an array of arrays.\<close>

definition upd2 :: "(nat \<Rightarrow> nat \<Rightarrow> 'a) \<Rightarrow> nat \<Rightarrow> nat \<Rightarrow> 'a \<Rightarrow> (nat \<Rightarrow> nat \<Rightarrow> 'a)" where
  "upd2 a s k v = a(s := (a s)(k := v))"

section \<open>Recording a collision\<close>

text \<open>
  \<^verbatim>\<open>realloc\<close> keeps the records that the buffer holds, so that growing the buffer changes
  its allocated size only.
\<close>

definition reb_mercurana_record_collision :: "reb_simulation \<Rightarrow> nat \<Rightarrow> nat \<Rightarrow> reb_simulation" where
  "reb_mercurana_record_collision r i j =
     (let r = (if collisions_allocatedN r \<le> collisions_N r
               then r\<lparr>collisions_allocatedN :=
                      (if collisions_allocatedN r \<noteq> 0 then collisions_allocatedN r * 2 else 32)\<rparr>
               else r);
          gb = \<lparr>shiftx = p_x (particles r i), shifty = p_y (particles r i),
                shiftz = p_z (particles r i), shiftvx = p_vx (particles r i),
                shiftvy = p_vy (particles r i), shiftvz = p_vz (particles r i)\<rparr>
      in r\<lparr>collisions := (collisions r)(collisions_N r := \<lparr>c_p1 = i, c_p2 = j, c_gb = gb\<rparr>),
           collisions_N := collisions_N r + 1\<rparr>)"

section \<open>The encounter prediction\<close>

text \<open>
  \<^verbatim>\<open>reb_mercurana_encounter_predict\<close> declares
  \<^verbatim>\<open>unsigned int* inshell_subdominant = rim->inshell_dominant;\<close>
  so that what it reads and writes under the name \<^verbatim>\<open>inshell_subdominant\<close> is the array
  \<^verbatim>\<open>rim->inshell_dominant\<close>. The model writes \<open>inshell_dominant\<close> at these places, and
  the field \<open>inshell_subdominant\<close> of the state is the array \<^verbatim>\<open>rim->inshell_subdominant\<close>.
\<close>

text \<open>Lines 271 to 275 (and 276 to 280, 301 to 305): a dominant particle descends.\<close>

definition promote_dominant :: "reb_simulation \<Rightarrow> nat \<Rightarrow> nat \<Rightarrow> reb_simulation" where
  "promote_dominant r shell mi =
     (if inshell_dominant r mi = shell
      then r\<lparr>inshell_dominant := (inshell_dominant r)(mi := shell + 1),
             map_dominant := upd2 (map_dominant r) (shell + 1) (shellN_dominant r (shell + 1)) mi,
             shellN_dominant := (shellN_dominant r)(shell + 1 := shellN_dominant r (shell + 1) + 1)\<rparr>
      else r)"

text \<open>Lines 306 to 311: a subdominant particle descends; the test and the write go to
  \<^verbatim>\<open>rim->inshell_dominant\<close>.\<close>

definition promote_subdominant :: "reb_simulation \<Rightarrow> nat \<Rightarrow> nat \<Rightarrow> reb_simulation" where
  "promote_subdominant r shell mj =
     (if inshell_dominant r mj = shell
      then r\<lparr>inshell_dominant := (inshell_dominant r)(mj := shell + 1),
             map_subdominant := upd2 (map_subdominant r) (shell + 1) (shellN_subdominant r (shell + 1)) mj,
             shellN_subdominant := (shellN_subdominant r)(shell + 1 := shellN_subdominant r (shell + 1) + 1)\<rparr>
      else r)"

text \<open>Lines 332 to 336 (and 337 to 341): an encounter particle descends.\<close>

definition promote_encounter :: "reb_simulation \<Rightarrow> nat \<Rightarrow> nat \<Rightarrow> reb_simulation" where
  "promote_encounter r shell mi =
     (if inshell_encounter r mi = shell
      then r\<lparr>inshell_encounter := (inshell_encounter r)(mi := shell + 1),
             map_encounter := upd2 (map_encounter r) (shell + 1) (shellN_encounter r (shell + 1)) mi,
             shellN_encounter := (shellN_encounter r)(shell + 1 := shellN_encounter r (shell + 1) + 1)\<rparr>
      else r)"

text \<open>The assignments \<^verbatim>\<open>maxdrift_dominant[mi] = MIN(maxdrift_dominant[mi],maxdrift)\<close> and
  \<^verbatim>\<open>maxdrift_encounter[mi] = MIN(maxdrift_encounter[mi],maxdrift)\<close>.\<close>

definition lower_maxdrift_dominant :: "reb_simulation \<Rightarrow> nat \<Rightarrow> double \<Rightarrow> reb_simulation" where
  "lower_maxdrift_dominant r mi maxdrift =
     r\<lparr>maxdrift_dominant := (maxdrift_dominant r)(mi := c_MIN (maxdrift_dominant r mi) maxdrift)\<rparr>"

definition lower_maxdrift_encounter :: "reb_simulation \<Rightarrow> nat \<Rightarrow> double \<Rightarrow> reb_simulation" where
  "lower_maxdrift_encounter r mi maxdrift =
     r\<lparr>maxdrift_encounter := (maxdrift_encounter r)(mi := c_MIN (maxdrift_encounter r mi) maxdrift)\<rparr>"

text \<open>The test for a physical collision, the same in the three passes (lines 265 to 268).\<close>

definition check_collision :: "reb_simulation \<Rightarrow> double \<Rightarrow> nat \<Rightarrow> nat \<Rightarrow> reb_simulation" where
  "check_collision r rmin2 mi mj =
     (let rsum = p_r (particles r mi) + p_r (particles r mj) in
      if rmin2 < rsum * rsum \<and> collision r = REB_COLLISION_DIRECT
      then reb_mercurana_record_collision r mi mj else r)"

text \<open>The body of the inner loop of pass (1), lines 263 to 285.\<close>

definition predict_dominant_dominant_pair ::
  "reb_simulation \<Rightarrow> double \<Rightarrow> nat \<Rightarrow> nat \<Rightarrow> nat \<Rightarrow> reb_simulation" where
  "predict_dominant_dominant_pair r dt shell mi j =
     (let mj = map_dominant r shell j;
          rmin2 = reb_mercurana_predict_rmin2 (particles r mi) (particles r mj) dt;
          r = check_collision r rmin2 mi mj;
          dcritsum = dcrit r shell mi + dcrit r shell mj
      in if rmin2 < dcritsum * dcritsum
         then promote_dominant (promote_dominant r shell mi) shell mj
         else (let maxdrift = (c_sqrt rmin2 - dcritsum) / Fin 2;
                   r = lower_maxdrift_dominant r mi maxdrift
               in lower_maxdrift_dominant r mj maxdrift))"

text \<open>The body of the inner loop of pass (2), lines 293 to 316.\<close>

definition predict_dominant_subdominant_pair ::
  "reb_simulation \<Rightarrow> double \<Rightarrow> nat \<Rightarrow> nat \<Rightarrow> nat \<Rightarrow> reb_simulation" where
  "predict_dominant_subdominant_pair r dt shell mi j =
     (let mj = map_subdominant r shell j;
          rmin2 = reb_mercurana_predict_rmin2 (particles r mi) (particles r mj) dt;
          r = check_collision r rmin2 mi mj;
          dcritsum = dcrit r shell mi + dcrit r shell mj
      in if rmin2 < dcritsum * dcritsum
         then promote_subdominant (promote_dominant r shell mi) shell mj
         else (let maxdrift = (c_sqrt rmin2 - dcritsum) / Fin 2;
                   r = lower_maxdrift_dominant r mi maxdrift
               in lower_maxdrift_dominant r mj maxdrift))"

text \<open>The body of the inner loop of pass (4), lines 324 to 346.\<close>

definition predict_encounter_encounter_pair ::
  "reb_simulation \<Rightarrow> double \<Rightarrow> nat \<Rightarrow> nat \<Rightarrow> nat \<Rightarrow> reb_simulation" where
  "predict_encounter_encounter_pair r dt shell mi j =
     (let mj = map_encounter r shell j;
          rmin2 = reb_mercurana_predict_rmin2 (particles r mi) (particles r mj) dt;
          r = check_collision r rmin2 mi mj;
          dcritsum = dcrit r shell mi + dcrit r shell mj
      in if rmin2 < dcritsum * dcritsum
         then promote_encounter (promote_encounter r shell mi) shell mj
         else (let maxdrift = (c_sqrt rmin2 - dcritsum) / Fin 2;
                   r = lower_maxdrift_encounter r mi maxdrift
               in lower_maxdrift_encounter r mj maxdrift))"

text \<open>
  The three passes, lines 259 to 348. The bounds are the local variables
  \<^verbatim>\<open>shellN_dominant\<close>, \<^verbatim>\<open>shellN_subdominant\<close> and \<^verbatim>\<open>shellN_encounter\<close> of the source.
\<close>

definition predict_dominant_dominant :: "reb_simulation \<Rightarrow> double \<Rightarrow> nat \<Rightarrow> nat \<Rightarrow> reb_simulation" where
  "predict_dominant_dominant r dt shell nD =
     fold (\<lambda>i r. let mi = map_dominant r shell i in
             fold (\<lambda>j r. predict_dominant_dominant_pair r dt shell mi j) [i + 1..<nD] r)
       [0..<nD] r"

definition predict_dominant_subdominant ::
  "reb_simulation \<Rightarrow> double \<Rightarrow> nat \<Rightarrow> nat \<Rightarrow> nat \<Rightarrow> reb_simulation" where
  "predict_dominant_subdominant r dt shell nD nS =
     fold (\<lambda>i r. let mi = map_dominant r shell i in
             fold (\<lambda>j r. predict_dominant_subdominant_pair r dt shell mi j) [0..<nS] r)
       [0..<nD] r"

definition predict_encounter_encounter :: "reb_simulation \<Rightarrow> double \<Rightarrow> nat \<Rightarrow> nat \<Rightarrow> reb_simulation" where
  "predict_encounter_encounter r dt shell nE =
     fold (\<lambda>i r. let mi = map_encounter r shell i in
             fold (\<lambda>j r. predict_encounter_encounter_pair r dt shell mi j) [i + 1..<nE] r)
       [0..<nE] r"

text \<open>The literal \<^verbatim>\<open>1e300\<close>.\<close>

definition c_1e300 :: double where
  "c_1e300 = Fin (10 ^ 300)"

text \<open>
  Lines 187 to 206: the maps of the outermost shell are set up. The counts are unsigned in
  the source: for \<^verbatim>\<open>N_dominant > N\<close> the difference \<^verbatim>\<open>r->N - rim->N_dominant\<close> wraps around,
  and the loop of line 196 writes \<^verbatim>\<open>map_dominant[i]\<close> for \<open>i\<close> beyond the \<open>N\<close> entries that
  have been allocated. The model is that of the source for \<open>N_dominant \<le> sim_N\<close>, where the
  difference is the one of the natural numbers; the statements on the source that concern
  the prediction of shell 0 have it as a hypothesis.
\<close>

definition predict_setup_shell0 :: "reb_simulation \<Rightarrow> reb_simulation" where
  "predict_setup_shell0 r =
     (let r = r\<lparr>shellN_dominant := (shellN_dominant r)(0 := N_dominant r)\<rparr>;
          r = r\<lparr>shellN_subdominant := (shellN_subdominant r)(0 := sim_N r - N_dominant r)\<rparr>;
          r = r\<lparr>shellN_encounter := (shellN_encounter r)(0 := sim_N r - N_dominant r)\<rparr>;
          nD = shellN_dominant r 0;
          nS = shellN_subdominant r 0;
          r = fold (\<lambda>i r. r\<lparr>map_dominant := upd2 (map_dominant r) 0 i i\<rparr>) [0..<nD] r;
          r = fold (\<lambda>i r. r\<lparr>map_subdominant := upd2 (map_subdominant r) 0 i (nD + i),
                             map_encounter := upd2 (map_encounter r) 0 i (nD + i)\<rparr>) [0..<nS] r
      in fold (\<lambda>i r. r\<lparr>maxdrift_dominant := (maxdrift_dominant r)(i := c_1e300),
                        maxdrift_encounter := (maxdrift_encounter r)(i := c_1e300),
                        inshell_encounter := (inshell_encounter r)(i := 0),
                        inshell_dominant := (inshell_dominant r)(i := 0)\<rparr>) [0..<sim_N r] r)"

text \<open>Lines 240 to 243: particle \<open>mj\<close> is appended to the encounter maps of the shells 1 to
  \<open>shell\<close>.\<close>

definition add_encounter_upto :: "reb_simulation \<Rightarrow> nat \<Rightarrow> nat \<Rightarrow> reb_simulation" where
  "add_encounter_upto r shell mj =
     fold (\<lambda>s r. r\<lparr>map_encounter := upd2 (map_encounter r) s (shellN_encounter r s) mj,
                      shellN_encounter := (shellN_encounter r)(s := shellN_encounter r s + 1)\<rparr>)
       [1..<shell + 1] r"

text \<open>
  Lines 231 to 253: the body of the inner loop of the check for a violation of the maximal
  drift. \<^verbatim>\<open>map_encounter\<close> is the local pointer of the source, that is the map of the
  current shell.
\<close>

definition predict_maxdrift_pair ::
  "reb_simulation \<Rightarrow> double \<Rightarrow> nat \<Rightarrow> nat \<Rightarrow> nat \<Rightarrow> reb_simulation" where
  "predict_maxdrift_pair r dt shell mi j =
     (let mj = map_encounter r shell j in
      if inshell_encounter r mj < shell
      then (let drift = t_drifted r mi - t_drifted r mj;
                rmin2 = reb_mercurana_predict_rmin2_drifted (particles r mi) (particles r mj) dt drift;
                dcritsum = dcrit r shell mi + dcrit r shell mj
            in if rmin2 < dcritsum * dcritsum
               then (let r = r\<lparr>inshell_encounter := (inshell_encounter r)(mj := shell)\<rparr>;
                         r = add_encounter_upto r shell mj;
                         pj = particles r mj;
                         pj = pj\<lparr>p_x := p_x pj + drift * p_vx pj\<rparr>;
                         pj = pj\<lparr>p_y := p_y pj + drift * p_vy pj\<rparr>;
                         pj = pj\<lparr>p_z := p_z pj + drift * p_vz pj\<rparr>
                     in r\<lparr>particles := (particles r)(mj := pj)\<rparr>)
               else (let maxdrift = (c_sqrt rmin2 - dcritsum) / Fin 2
                     in lower_maxdrift_dominant r mi maxdrift))
      else r)"

text \<open>
  Lines 222 to 256. The bound of the inner loop is \<^verbatim>\<open>rim->shellN_encounter[0]\<close>, which the
  loop does not write (\<^verbatim>\<open>s\<close> starts at 1).
\<close>

definition predict_maxdrift :: "reb_simulation \<Rightarrow> double \<Rightarrow> nat \<Rightarrow> nat \<Rightarrow> reb_simulation" where
  "predict_maxdrift r dt shell nE =
     fold (\<lambda>i r.
        let mi = map_encounter r shell i;
            dx = p_x (particles r mi) - p_x (p0 r mi);
            dy = p_y (particles r mi) - p_y (p0 r mi);
            dz = p_z (particles r mi) - p_z (p0 r mi);
            drift = c_sqrt (dx * dx + dy * dy + dz * dz)
        in if drift > maxdrift_encounter r mi
           then fold (\<lambda>j r. predict_maxdrift_pair r dt shell mi j) [0..<shellN_encounter r 0] r
           else r)
       [0..<nE] r"

text \<open>Lines 179 to 183: no collision recorded yet, and the maps of the next shell are empty.\<close>

definition predict_reset :: "reb_simulation \<Rightarrow> nat \<Rightarrow> reb_simulation" where
  "predict_reset r shell =
     (let r = r\<lparr>collisions_N := 0\<rparr>;
          r = r\<lparr>shellN_encounter := (shellN_encounter r)(shell + 1 := 0)\<rparr>;
          r = r\<lparr>shellN_dominant := (shellN_dominant r)(shell + 1 := 0)\<rparr>
      in r\<lparr>shellN_subdominant := (shellN_subdominant r)(shell + 1 := 0)\<rparr>)"

text \<open>Lines 259 to 348: the three passes, one after the other.\<close>

definition predict_passes :: "reb_simulation \<Rightarrow> double \<Rightarrow> nat \<Rightarrow> nat \<Rightarrow> nat \<Rightarrow> nat \<Rightarrow> reb_simulation" where
  "predict_passes r dt shell nD nS nE =
     (let r = predict_dominant_dominant r dt shell nD;
          r = predict_dominant_subdominant r dt shell nD nS
      in predict_encounter_encounter r dt shell nE)"

text \<open>
  Lines 179 to 352 of \<^verbatim>\<open>reb_mercurana_encounter_predict\<close>: what the function does between
  its guard and the resolution of the collisions. The three counts are read when the
  function is entered (lines 156 to 158) and, for shell 0, read again after the setup
  (lines 190 to 192).
\<close>

definition predict_scan :: "reb_simulation \<Rightarrow> double \<Rightarrow> nat \<Rightarrow> reb_simulation" where
  "predict_scan r dt shell =
     (let nE = shellN_encounter r shell;
          nD = shellN_dominant r shell;
          nS = shellN_subdominant r shell;
          r = predict_reset r shell
      in if shell = 0
         then (let r = predict_setup_shell0 r;
                   nE = shellN_encounter r shell;
                   nD = shellN_dominant r shell;
                   nS = shellN_subdominant r shell
               in predict_passes r dt shell nD nS nE)
         else predict_passes (predict_maxdrift r dt shell nE) dt shell nD nS nE)"

text \<open>
  The whole function. \<^verbatim>\<open>reb_collision_search\<close> belongs to the host and is the parameter
  \<open>collision_search\<close>. The function calls itself when the number of particles has changed,
  so it need not return: the result is \<open>None\<close> when it does not.
\<close>

partial_function (option) reb_mercurana_encounter_predict ::
  "(reb_simulation \<Rightarrow> reb_simulation) \<Rightarrow> reb_simulation \<Rightarrow> double \<Rightarrow> nat \<Rightarrow> reb_simulation option" where
  "reb_mercurana_encounter_predict collision_search r dt shell =
     (if int shell + 1 \<ge> Nmaxshells r then Some r
      else (let r = predict_scan r dt shell in
            if collisions_N r \<noteq> 0
            then (let N_before = sim_N r;
                      r = collision_search r
                  in Option.bind
                       (if N_before \<noteq> sim_N r
                        then reb_mercurana_encounter_predict collision_search r dt shell
                        else Some r)
                       (\<lambda>r. Some (r\<lparr>collisions_N := 0\<rparr>)))
            else Some r))"

text \<open>
  The sequences of particle indices that the specification calls \<open>map_X[s]\<close>: the first
  \<open>shellN_X[s]\<close> entries of the array.
\<close>

definition seq_dominant :: "reb_simulation \<Rightarrow> nat \<Rightarrow> nat list" where
  "seq_dominant r s = map (map_dominant r s) [0..<shellN_dominant r s]"

definition seq_subdominant :: "reb_simulation \<Rightarrow> nat \<Rightarrow> nat list" where
  "seq_subdominant r s = map (map_subdominant r s) [0..<shellN_subdominant r s]"

definition seq_encounter :: "reb_simulation \<Rightarrow> nat \<Rightarrow> nat list" where
  "seq_encounter r s = map (map_encounter r s) [0..<shellN_encounter r s]"

definition shell_members :: "reb_simulation \<Rightarrow> nat \<Rightarrow> nat list \<times> nat list \<times> nat list" where
  "shell_members r s = (seq_dominant r s, seq_subdominant r s, seq_encounter r s)"


section \<open>The drift step\<close>

text \<open>
  \<^verbatim>\<open>reb_integrator_mercurana_drift_step\<close> declares
  \<^verbatim>\<open>unsigned int* inshell_subdominant = rim->inshell_dominant;\<close>
  as the prediction does. The three tests under which a particle of a map of the shell is
  moved are lines 434, 443 and 452.
\<close>

definition advance_dominant :: "reb_simulation \<Rightarrow> nat \<Rightarrow> nat \<Rightarrow> bool" where
  "advance_dominant r shell mi \<longleftrightarrow> inshell_dominant r mi = shell"

definition advance_subdominant :: "reb_simulation \<Rightarrow> nat \<Rightarrow> nat \<Rightarrow> bool" where
  "advance_subdominant r shell mi \<longleftrightarrow> inshell_dominant r mi = shell \<and> inshell_encounter r mi \<le> shell"

definition advance_encounter :: "reb_simulation \<Rightarrow> nat \<Rightarrow> nat \<Rightarrow> bool" where
  "advance_encounter r shell mi \<longleftrightarrow> inshell_dominant r mi < shell \<and> inshell_encounter r mi = shell"

text \<open>The four assignments that move one particle (lines 435 to 438).\<close>

definition drifted :: "reb_particle \<Rightarrow> double \<Rightarrow> reb_particle" where
  "drifted p a =
     (let p = p\<lparr>p_x := p_x p + a * p_vx p\<rparr>;
          p = p\<lparr>p_y := p_y p + a * p_vy p\<rparr>
      in p\<lparr>p_z := p_z p + a * p_vz p\<rparr>)"

definition drift_particle :: "reb_simulation \<Rightarrow> double \<Rightarrow> nat \<Rightarrow> reb_simulation" where
  "drift_particle r a mi =
     r\<lparr>particles := (particles r)(mi := drifted (particles r mi) a),
       t_drifted := (t_drifted r)(mi := t_drifted r mi + a)\<rparr>"

text \<open>Lines 421 to 458: the three loops over the maps of the shell.\<close>

definition drift_advance :: "reb_simulation \<Rightarrow> double \<Rightarrow> nat \<Rightarrow> reb_simulation" where
  "drift_advance r a shell =
     (let nE = shellN_encounter r shell;
          nD = shellN_dominant r shell;
          nS = shellN_subdominant r shell;
          r = fold (\<lambda>i r. let mi = map_dominant r shell i in
                      if advance_dominant r shell mi then drift_particle r a mi else r) [0..<nD] r;
          r = fold (\<lambda>i r. let mi = map_subdominant r shell i in
                      if advance_subdominant r shell mi then drift_particle r a mi else r) [0..<nS] r
      in fold (\<lambda>i r. let mi = map_encounter r shell i in
                      if advance_encounter r shell mi then drift_particle r a mi else r) [0..<nE] r)"

text \<open>
  The driver of the operator splitting (\<^verbatim>\<open>integrator_eos.c\<close>) is not part of the sources at
  hand. Its three entry points are parameters, each already applied to the two callbacks
  that the integrator passes: \<open>eos_preprocessor r dt shell phi\<close>, \<open>eos_step r dt shell phi\<close>
  (with both coefficients 1) and \<open>eos_postprocessor r dt shell phi\<close>. The flag
  \<^verbatim>\<open>reb_sigint\<close> of the host is the parameter \<open>sigint\<close>.
\<close>

type_synonym eos_entry = "reb_simulation \<Rightarrow> double \<Rightarrow> nat \<Rightarrow> REB_EOS_TYPE \<Rightarrow> reb_simulation"

definition reb_integrator_mercurana_drift_step ::
  "bool \<Rightarrow> (reb_simulation \<Rightarrow> reb_simulation) \<Rightarrow> eos_entry \<Rightarrow> eos_entry \<Rightarrow> eos_entry
     \<Rightarrow> reb_simulation \<Rightarrow> double \<Rightarrow> nat \<Rightarrow> reb_simulation option" where
  "reb_integrator_mercurana_drift_step sigint collision_search eos_preprocessor eos_step
       eos_postprocessor r a shell =
     (if sigint then Some r
      else Option.bind (reb_mercurana_encounter_predict collision_search r a shell) (\<lambda>r.
        let r = drift_advance r a shell in
        if int shell + 1 < Nmaxshells r
        then (if shellN_encounter r (shell + 1) > 0 \<or> shellN_dominant r (shell + 1) > 0
              then (let r = r\<lparr>Nmaxshellsused := max (Nmaxshellsused r) (shell + 2)\<rparr>;
                        n = (if n1 r \<noteq> 0 then n1 r else n0 r);
                        n = (if n0 r > 0 \<and> shell = 0 then n0 r else n);
                        as = a / Fin (real n);
                        r = eos_preprocessor r as (shell + 1) (phi1 r);
                        r = ((\<lambda>r. eos_step r as (shell + 1) (phi1 r)) ^^ n) r
                    in Some (eos_postprocessor r as (shell + 1) (phi1 r)))
              else Some (r\<lparr>sim_t := sim_t r + a\<rparr>))
        else Some (r\<lparr>sim_t := sim_t r + a\<rparr>)))"

section \<open>The two parts of a step\<close>

text \<open>
  Lines 486 to 505 of \<^verbatim>\<open>reb_integrator_mercurana_part1\<close> check the configuration. What
  follows them (lines 507 to 644: the arrays are allocated with \<^verbatim>\<open>realloc\<close> and
  \<^verbatim>\<open>malloc\<close>, the critical radii are computed, the gravity routine and the switching
  function are set) is the parameter \<open>setup\<close>.
\<close>

definition reb_integrator_mercurana_part1 ::
  "(reb_simulation \<Rightarrow> reb_simulation) \<Rightarrow> reb_simulation \<Rightarrow> reb_simulation" where
  "reb_integrator_mercurana_part1 setup r =
     (let r = (if var_config_N r \<noteq> 0
               then reb_warning r ''Mercurana does not work with variational equations.''
               else r)
      in if Nmaxshells r \<le> 0
         then reb_error r ''Nmaxshells needs to be larger than 0.''
         else if Nmaxshells r = 1 \<and> n0 r \<noteq> 0
         then reb_error r ''Nmaxshells>=2 is required if n0 is greater than 0.''
         else if Nmaxshells r = 2 \<and> n1 r \<noteq> 0
         then reb_error r ''Nmaxshells>=3 is required if n1 is greater than 0.''
         else if Nmaxshells r > 1 \<and> kappa r \<le> Fin 0
         then reb_error r ''kappa>0 is required if Nmaxshells>1.''
         else setup r)"

definition reb_integrator_mercurana_synchronize :: "eos_entry \<Rightarrow> reb_simulation \<Rightarrow> reb_simulation" where
  "reb_integrator_mercurana_synchronize eos_postprocessor r =
     (if is_synchronized r = 0
      then (let r = (if rim_L r = None
                     then r\<lparr>rim_L := Some reb_integrator_mercurana_L_infinity,
                            rim_dLdr := Some reb_integrator_mercurana_dLdr_infinity\<rparr>
                     else r);
                r = eos_postprocessor r (sim_dt r) 0 (phi0 r)
            in r\<lparr>is_synchronized := 1\<rparr>)
      else r)"

definition reb_integrator_mercurana_part2 ::
  "eos_entry \<Rightarrow> eos_entry \<Rightarrow> eos_entry \<Rightarrow> reb_simulation \<Rightarrow> reb_simulation" where
  "reb_integrator_mercurana_part2 eos_preprocessor eos_step eos_postprocessor r =
     (if allocatedN r < sim_N r then r
      else (let r = fold (\<lambda>i r. r\<lparr>t_drifted := (t_drifted r)(i := Fin 0),
                                   p0 := (p0 r)(i := particles r i)\<rparr>) [0..<sim_N r] r;
                r = (if is_synchronized r \<noteq> 0 then eos_preprocessor r (sim_dt r) 0 (phi0 r) else r);
                r = eos_step r (sim_dt r) 0 (phi0 r);
                r = r\<lparr>is_synchronized := 0\<rparr>;
                r = (if safe_mode r \<noteq> 0
                     then reb_integrator_mercurana_synchronize eos_postprocessor r else r)
            in r\<lparr>sim_dt_last_done := sim_dt r\<rparr>))"

section \<open>Notions used in the statements and in the proofs\<close>

text \<open>
  The state in which the three passes of \<open>predict_scan\<close> start, and their bounds.
\<close>

definition scan_start0 :: "reb_simulation \<Rightarrow> reb_simulation" where
  "scan_start0 r = predict_setup_shell0 (predict_reset r 0)"

definition scan_start :: "reb_simulation \<Rightarrow> double \<Rightarrow> nat \<Rightarrow> reb_simulation" where
  "scan_start r dt s =
     (if s = 0 then scan_start0 r
      else predict_maxdrift (predict_reset r s) dt s (shellN_encounter r s))"

definition scan_nD :: "reb_simulation \<Rightarrow> nat \<Rightarrow> nat" where
  "scan_nD r s = (if s = 0 then N_dominant r else shellN_dominant r s)"

definition scan_nS :: "reb_simulation \<Rightarrow> nat \<Rightarrow> nat" where
  "scan_nS r s = (if s = 0 then sim_N r - N_dominant r else shellN_subdominant r s)"

definition scan_nE :: "reb_simulation \<Rightarrow> nat \<Rightarrow> nat" where
  "scan_nE r s = (if s = 0 then sim_N r - N_dominant r else shellN_encounter r s)"

text \<open>
  A pair of particles overlaps during the drift, in the sense of the test of lines 265 and
  266, and the collision buffer holds a record of a pair.
\<close>

definition overlap :: "reb_simulation \<Rightarrow> double \<Rightarrow> nat \<Rightarrow> nat \<Rightarrow> bool" where
  "overlap b dt mi mj \<longleftrightarrow>
     collision b = REB_COLLISION_DIRECT
     \<and> reb_mercurana_predict_rmin2 (particles b mi) (particles b mj) dt
         < (p_r (particles b mi) + p_r (particles b mj)) * (p_r (particles b mi) + p_r (particles b mj))"

definition recorded :: "reb_simulation \<Rightarrow> nat \<Rightarrow> nat \<Rightarrow> bool" where
  "recorded a mi mj \<longleftrightarrow> (\<exists>k<collisions_N a. c_p1 (collisions a k) = mi \<and> c_p2 (collisions a k) = mj)"

text \<open>
  Invariants of the loops. \<open>scan_inv\<close>: the rows of shell \<open>s\<close> are fixed and every entry of
  shell \<open>s + 1\<close> comes from the scanned part of shell \<open>s\<close>. \<open>maxdrift_frame\<close>: what the check
  of the maximal drift leaves alone. \<open>scan_eq\<close>: two states agree on all that the passes read
  and write, up to the unused slots of the maps and of the collision buffer. \<open>counts_ok\<close>:
  the bounds of the passes stay below the counts of the shell. \<open>scan_frame\<close>: what the
  passes of shell \<open>s\<close> leave alone. \<open>pass_frame\<close> and \<open>keeps\<close>: the passes neither move
  particles nor drop a record. \<open>same_shells\<close> and \<open>moved\<close>: the drift changes positions and
  drift times only, and \<open>K\<close> is the set of the particles moved so far.
\<close>

definition scan_inv :: "reb_simulation \<Rightarrow> nat \<Rightarrow> (nat \<Rightarrow> nat) \<Rightarrow> (nat \<Rightarrow> nat) \<Rightarrow> (nat \<Rightarrow> nat)
    \<Rightarrow> nat \<Rightarrow> nat \<Rightarrow> nat \<Rightarrow> bool" where
  "scan_inv r s fD fS fE nD nS nE \<longleftrightarrow>
     map_dominant r s = fD \<and> map_subdominant r s = fS \<and> map_encounter r s = fE
     \<and> nD \<le> shellN_dominant r s \<and> nS \<le> shellN_subdominant r s \<and> nE \<le> shellN_encounter r s
     \<and> (\<forall>k<shellN_dominant r (s + 1). map_dominant r (s + 1) k \<in> fD ` {..<nD})
     \<and> (\<forall>k<shellN_subdominant r (s + 1). map_subdominant r (s + 1) k \<in> fS ` {..<nS})
     \<and> (\<forall>k<shellN_encounter r (s + 1). map_encounter r (s + 1) k \<in> fE ` {..<nE})"


definition scan_eq :: "reb_simulation \<Rightarrow> reb_simulation \<Rightarrow> bool" where
  "scan_eq a b \<longleftrightarrow>
     particles a = particles b \<and> sim_N a = sim_N b \<and> N_dominant a = N_dominant b
     \<and> collision a = collision b \<and> dcrit a = dcrit b \<and> Nmaxshells a = Nmaxshells b
     \<and> shellN_dominant a = shellN_dominant b \<and> shellN_subdominant a = shellN_subdominant b
     \<and> shellN_encounter a = shellN_encounter b
     \<and> inshell_dominant a = inshell_dominant b \<and> inshell_encounter a = inshell_encounter b
     \<and> maxdrift_dominant a = maxdrift_dominant b \<and> maxdrift_encounter a = maxdrift_encounter b
     \<and> collisions_N a = collisions_N b
     \<and> (\<forall>t k. k < shellN_dominant a t \<longrightarrow> map_dominant a t k = map_dominant b t k)
     \<and> (\<forall>t k. k < shellN_subdominant a t \<longrightarrow> map_subdominant a t k = map_subdominant b t k)
     \<and> (\<forall>t k. k < shellN_encounter a t \<longrightarrow> map_encounter a t k = map_encounter b t k)"

definition counts_ok :: "reb_simulation \<Rightarrow> nat \<Rightarrow> nat \<Rightarrow> nat \<Rightarrow> nat \<Rightarrow> (nat \<Rightarrow> nat) \<Rightarrow> (nat \<Rightarrow> nat) \<Rightarrow> bool" where
  "counts_ok a s nD nS nE fD fE \<longleftrightarrow>
     nD \<le> shellN_dominant a s \<and> nS \<le> shellN_subdominant a s \<and> nE \<le> shellN_encounter a s
     \<and> (\<forall>i<nD. map_dominant a s i = fD i) \<and> (\<forall>i<nE. map_encounter a s i = fE i)"

definition scan_frame :: "reb_simulation \<Rightarrow> reb_simulation \<Rightarrow> nat \<Rightarrow> bool" where
  "scan_frame b a s \<longleftrightarrow>
     particles a = particles b \<and> sim_N a = sim_N b \<and> N_dominant a = N_dominant b
     \<and> collision a = collision b \<and> dcrit a = dcrit b \<and> Nmaxshells a = Nmaxshells b
     \<and> (\<forall>k. k \<noteq> s + 1 \<longrightarrow> shellN_dominant a k = shellN_dominant b k)
     \<and> (\<forall>k. k \<noteq> s + 1 \<longrightarrow> shellN_subdominant a k = shellN_subdominant b k)
     \<and> (\<forall>k. k \<noteq> s + 1 \<longrightarrow> shellN_encounter a k = shellN_encounter b k)
     \<and> (\<forall>t. t \<noteq> s + 1 \<longrightarrow> map_dominant a t = map_dominant b t)
     \<and> (\<forall>t. t \<noteq> s + 1 \<longrightarrow> map_subdominant a t = map_subdominant b t)
     \<and> (\<forall>t. t \<noteq> s + 1 \<longrightarrow> map_encounter a t = map_encounter b t)
     \<and> (\<forall>i. sim_N b \<le> i \<longrightarrow> inshell_dominant a i = inshell_dominant b i)
     \<and> (\<forall>i. sim_N b \<le> i \<longrightarrow> inshell_encounter a i = inshell_encounter b i)
     \<and> (\<forall>i. sim_N b \<le> i \<longrightarrow> maxdrift_dominant a i = maxdrift_dominant b i)
     \<and> (\<forall>i. sim_N b \<le> i \<longrightarrow> maxdrift_encounter a i = maxdrift_encounter b i)"

definition pass_frame :: "reb_simulation \<Rightarrow> reb_simulation \<Rightarrow> nat \<Rightarrow> bool" where
  "pass_frame b a s \<longleftrightarrow>
     particles a = particles b \<and> collision a = collision b \<and> dcrit a = dcrit b
     \<and> map_dominant a s = map_dominant b s \<and> map_subdominant a s = map_subdominant b s
     \<and> map_encounter a s = map_encounter b s"

definition keeps :: "reb_simulation \<Rightarrow> nat \<Rightarrow> bool \<Rightarrow> nat \<Rightarrow> nat \<Rightarrow> reb_simulation \<Rightarrow> bool" where
  "keeps b s g x y a \<longleftrightarrow> pass_frame b a s \<and> (g \<longrightarrow> recorded a x y)"



text \<open>
  The pairs of particles that the three passes of lines 259 to 348 visit, in the order of
  the passes, when they run over the maps of shell \<open>s\<close> of the state \<open>b\<close> with the bounds
  \<open>nD\<close>, \<open>nS\<close> and \<open>nE\<close>.
\<close>

definition scan_pairs :: "reb_simulation \<Rightarrow> nat \<Rightarrow> nat \<Rightarrow> nat \<Rightarrow> nat \<Rightarrow> (nat \<times> nat) list" where
  "scan_pairs b s nD nS nE =
     concat (map (\<lambda>i. map (\<lambda>j. (map_dominant b s i, map_dominant b s j)) [i + 1..<nD]) [0..<nD])
     @ concat (map (\<lambda>i. map (\<lambda>j. (map_dominant b s i, map_subdominant b s j)) [0..<nS]) [0..<nD])
     @ concat (map (\<lambda>i. map (\<lambda>j. (map_encounter b s i, map_encounter b s j)) [i + 1..<nE]) [0..<nE])"

section \<open>Concrete states\<close>

text \<open>
  A particle at rest on the x axis, and a particle that moves along it. \<open>blank\<close> is the
  state of a simulation of \<open>n\<close> particles, \<open>nd\<close> of them dominant, with at most \<open>smax\<close>
  shells, whose arrays hold zeros and whose critical radii are all 1; the other settings
  are those of \<^verbatim>\<open>reb_integrator_mercurana_reset\<close>.
\<close>

definition ball :: "real \<Rightarrow> real \<Rightarrow> reb_particle" where
  "ball pos rad = \<lparr>p_x = Fin pos, p_y = Fin 0, p_z = Fin 0, p_vx = Fin 0, p_vy = Fin 0, p_vz = Fin 0,
     p_ax = Fin 0, p_ay = Fin 0, p_az = Fin 0, p_m = Fin 1, p_r = Fin rad\<rparr>"

definition mover :: "real \<Rightarrow> real \<Rightarrow> reb_particle" where
  "mover pos vel = \<lparr>p_x = Fin pos, p_y = Fin 0, p_z = Fin 0, p_vx = Fin vel, p_vy = Fin 0, p_vz = Fin 0,
     p_ax = Fin 0, p_ay = Fin 0, p_az = Fin 0, p_m = Fin 1, p_r = Fin 0\<rparr>"

definition blank :: "nat \<Rightarrow> nat \<Rightarrow> int \<Rightarrow> (nat \<Rightarrow> reb_particle) \<Rightarrow> reb_simulation" where
  "blank n nd smax ps = \<lparr>particles = ps, sim_N = n, sim_t = Fin 0, sim_dt = Fin 1, sim_dt_last_done = Fin 0,
     collision = REB_COLLISION_NONE, gravity = REB_GRAVITY_BASIC,
     collisions = (\<lambda>_. \<lparr>c_p1 = 0, c_p2 = 0, c_gb = \<lparr>shiftx = Fin 0, shifty = Fin 0, shiftz = Fin 0,
        shiftvx = Fin 0, shiftvy = Fin 0, shiftvz = Fin 0\<rparr>\<rparr>),
     collisions_allocatedN = 0, var_config_N = 0, messages = [],
     phi0 = REB_EOS_LF, phi1 = REB_EOS_LF, n0 = 2, n1 = 0, kappa = Fin (1 / 1000), safe_mode = 1,
     Nmaxshells = smax, Nmaxshellsused = 1, N_dominant = nd, allocatedN = n, is_synchronized = 1,
     rim_L = None, rim_dLdr = None,
     dcrit = (\<lambda>_ _. Fin 1),
     map_encounter = (\<lambda>_ _. 0), map_dominant = (\<lambda>_ _. 0), map_subdominant = (\<lambda>_ _. 0),
     shellN_encounter = (\<lambda>_. 0), shellN_dominant = (\<lambda>_. 0), shellN_subdominant = (\<lambda>_. 0),
     inshell_encounter = (\<lambda>_. 0), inshell_dominant = (\<lambda>_. 0), inshell_subdominant = (\<lambda>_. 0),
     maxdrift_encounter = (\<lambda>_. Fin 0), maxdrift_dominant = (\<lambda>_. Fin 0),
     t_drifted = (\<lambda>_. Fin 0), p0 = ps, collisions_N = 0\<rparr>"

text \<open>A collision search that resolves nothing and leaves a line in the log when it is called.\<close>

definition logging_search :: "reb_simulation \<Rightarrow> reb_simulation" where
  "logging_search r = reb_warning r ''reb_collision_search''"

text \<open>
  Two dominant particles at the same place, three shells: the state before the step, after
  the prediction of shell 0, and after a first and a second prediction of shell 1.
\<close>

definition c1_start :: reb_simulation where
  "c1_start = blank 2 2 3 (\<lambda>_. ball 0 0)"

definition c1_shell0 :: reb_simulation where
  "c1_shell0 = predict_scan c1_start (Fin 1) 0"

definition c1_first :: reb_simulation where
  "c1_first = predict_scan c1_shell0 (Fin 1) 1"

definition c1_second :: reb_simulation where
  "c1_second = predict_scan c1_first (Fin 1) 1"

text \<open>
  Two particles of radius 1 at the same place, none dominant, two shells, direct collision
  search: the state before the step and after the prediction of shell 0, in which both
  particles are in shell 1, the deepest.
\<close>

definition c2_start :: reb_simulation where
  "c2_start = (blank 2 0 2 (\<lambda>_. ball 0 1))\<lparr>collision := REB_COLLISION_DIRECT\<rparr>"

definition c2_shell0 :: reb_simulation where
  "c2_shell0 = (logging_search (predict_scan c2_start (Fin 1) 0))\<lparr>collisions_N := 0\<rparr>"

text \<open>A dominant and a subdominant particle at the same place, two shells.\<close>

definition c3_start :: reb_simulation where
  "c3_start = blank 2 1 2 (\<lambda>_. ball 0 0)"

definition c3_after :: reb_simulation where
  "c3_after = predict_scan c3_start (Fin 1) 0"

text \<open>
  Three particles, none dominant, three shells. Particles 0 and 1 are in shell 1 and have
  drifted from 0 to 5 for half a time unit, which is more than their maximal drift 1;
  particle 2 rests at 5, is in shell 0 only and has not been drifted. The third slot of the
  map of shell 1 has never been written and holds 0.
\<close>

definition c4_state :: reb_simulation where
  "c4_state = (blank 3 0 3 (\<lambda>_. ball 5 0))
     \<lparr>p0 := (\<lambda>_. ball 0 0)(2 := ball 5 0),
      shellN_encounter := (\<lambda>_. 0)(0 := 3, 1 := 2),
      shellN_subdominant := (\<lambda>_. 0)(0 := 3),
      map_encounter := (\<lambda>_ _. 0)(0 := (\<lambda>k. k), 1 := (\<lambda>_. 0)(0 := 0, 1 := 1)),
      map_subdominant := (\<lambda>_ _. 0)(0 := (\<lambda>k. k)),
      inshell_encounter := (\<lambda>_. 0)(0 := 1, 1 := 1),
      maxdrift_encounter := (\<lambda>_. Fin 1),
      maxdrift_dominant := (\<lambda>_. Fin 1),
      t_drifted := (\<lambda>_. Fin 0)(0 := Fin (1 / 2), 1 := Fin (1 / 2))\<rparr>"

definition c4_after :: reb_simulation where
  "c4_after = predict_scan c4_state (Fin 1) 1"





text \<open>
  Two particles whose arrays an earlier step has allocated (\<open>allocatedN = 2\<close>), each drifted
  for the whole of that step, after which \<^verbatim>\<open>kappa\<close> has been set to 0. \<open>eos_idle\<close> is an
  entry point of the driver that does nothing, \<open>eos_clock\<close> one that advances the time by
  the step.
\<close>

definition c10_state :: reb_simulation where
  "c10_state = (blank 2 0 10 (\<lambda>_. ball 0 0))\<lparr>kappa := Fin 0, t_drifted := (\<lambda>_. Fin 1)\<rparr>"

definition eos_idle :: eos_entry where
  "eos_idle r dt s phi = r"

definition eos_clock :: eos_entry where
  "eos_clock r dt s phi = r\<lparr>sim_t := sim_t r + dt\<rparr>"

text \<open>
  Three particles of radius 1/2, none dominant, three shells, direct collision search.
  Particles 0 and 1 are in shell 1 and have drifted by 5, from 0 to 5 and from 1 to 6, for
  half a time unit, which is more than their maximal drift 1; particle 2 rests at 5, is in
  shell 0 only and has not been drifted. The third slot of the map of shell 1 is not in
  use and holds 2, as an earlier step has left it in which the three particles were in
  shell 1.
\<close>

definition c2_drift_state :: reb_simulation where
  "c2_drift_state = (blank 3 0 3 ((\<lambda>_. ball 5 (1 / 2))(1 := ball 6 (1 / 2))))
     \<lparr>collision := REB_COLLISION_DIRECT,
      p0 := (\<lambda>_. ball 0 (1 / 2))(1 := ball 1 (1 / 2), 2 := ball 5 (1 / 2)),
      shellN_encounter := (\<lambda>_. 0)(0 := 3, 1 := 2),
      shellN_subdominant := (\<lambda>_. 0)(0 := 3),
      map_encounter := (\<lambda>_ k. k),
      map_subdominant := (\<lambda>_ _. 0)(0 := (\<lambda>k. k)),
      inshell_encounter := (\<lambda>_. 0)(0 := 1, 1 := 1),
      maxdrift_encounter := (\<lambda>_. Fin 1),
      maxdrift_dominant := (\<lambda>_. Fin 1),
      t_drifted := (\<lambda>_. Fin 0)(0 := Fin (1 / 2), 1 := Fin (1 / 2))\<rparr>"

definition c2_drift_after :: reb_simulation where
  "c2_drift_after = predict_scan c2_drift_state (Fin 1) 1"



section \<open>The encounter predictor: proofs\<close>


lemma is_fin_ex: "is_fin a \<Longrightarrow> \<exists>r. a = Fin r"
  by (cases a) auto

lemma finite_pvE:
  assumes "finite_pv p"
  obtains a b c d e f where "p_x p = Fin a" "p_y p = Fin b" "p_z p = Fin c"
    "p_vx p = Fin d" "p_vy p = Fin e" "p_vz p = Fin f"
proof -
  from assms have "is_fin (p_x p)" "is_fin (p_y p)" "is_fin (p_z p)"
    "is_fin (p_vx p)" "is_fin (p_vy p)" "is_fin (p_vz p)"
    by (simp_all add: finite_pv_def)
  then obtain a b c d e f where "p_x p = Fin a" "p_y p = Fin b" "p_z p = Fin c"
    "p_vx p = Fin d" "p_vy p = Fin e" "p_vz p = Fin f"
    by (auto dest!: is_fin_ex)
  then show ?thesis by (rule that)
qed

lemma c_MIN_Fin: "c_MIN (Fin a) (Fin b) = Fin (min a b)"
  by (simp add: c_MIN_def min_def)

lemma copysign_one: "copysign (Fin 1) (Fin d) = Fin (drift_sign d)"
  by (simp add: copysign_def drift_sign_def)

lemma div_abs_in_unit:
  assumes "Fin t / Fin \<bar>d\<bar> \<ge> Fin 0 \<and> Fin t / Fin \<bar>d\<bar> \<le> Fin 1"
  shows "d \<noteq> 0 \<and> 0 \<le> t \<and> t \<le> \<bar>d\<bar>"
proof -
  have d: "d \<noteq> 0"
    using assms by (cases "d = 0"; cases "t = 0"; cases "0 < t") auto
  with assms have "0 \<le> t / \<bar>d\<bar>" "t / \<bar>d\<bar> \<le> 1"
    by simp_all
  with d have "0 \<le> t" "t \<le> \<bar>d\<bar>"
    by (simp_all add: zero_le_divide_iff pos_divide_le_eq)
  with d show ?thesis by simp
qed

lemma div_in_unit:
  assumes "(Fin n / Fin q) / Fin \<bar>d\<bar> \<ge> Fin 0 \<and> (Fin n / Fin q) / Fin \<bar>d\<bar> \<le> Fin 1"
  shows "q \<noteq> 0 \<and> d \<noteq> 0 \<and> 0 \<le> n / q \<and> n / q \<le> \<bar>d\<bar>"
proof -
  have q: "q \<noteq> 0"
  proof
    assume q0: "q = 0"
    consider "n = 0" | "0 < n" | "n < 0" by linarith
    then show False
    proof cases
      case 1
      with q0 have "Fin n / Fin q = NaN" by simp
      with assms show False by simp
    next
      case 2
      with q0 have "Fin n / Fin q = PInf" by simp
      with assms show False by simp
    next
      case 3
      with q0 have "Fin n / Fin q = NInf" by simp
      with assms show False by simp
    qed
  qed
  then have "Fin n / Fin q = Fin (n / q)"
    by simp
  with assms have "Fin (n / q) / Fin \<bar>d\<bar> \<ge> Fin 0 \<and> Fin (n / q) / Fin \<bar>d\<bar> \<le> Fin 1"
    by (simp only:)
  then have "d \<noteq> 0 \<and> 0 \<le> n / q \<and> n / q \<le> \<bar>d\<bar>"
    by (rule div_abs_in_unit)
  with q show ?thesis by blast
qed


text \<open>
  Claim C7. For particles with finite positions and velocities and every finite signed
  drift interval \<open>d\<close>, \<^verbatim>\<open>reb_mercurana_predict_rmin2\<close> returns a finite value that is at most the
  minimum of the squared separation at \<open>\<tau> = 0\<close> and at \<open>\<tau> = |d|\<close>, the sign of \<open>d\<close> being
  absorbed into the relative velocity; it is equal to that minimum whenever
  \<open>tau_star = (\<Delta>r \<cdot> \<Delta>v) / |\<Delta>v|\<^sup>2\<close> lies outside \<open>[0, |d|]\<close>.
\<close>

theorem rmin2_at_most_endpoints:
  assumes "finite_pv p1" "finite_pv p2"
  shows "\<exists>v. reb_mercurana_predict_rmin2 p1 p2 (Fin d) = Fin v
     \<and> v \<le> min (separation2 p1 p2 d 0) (separation2 p1 p2 d \<bar>d\<bar>)
     \<and> (tau_star p1 p2 d < 0 \<or> \<bar>d\<bar> < tau_star p1 p2 d
        \<longrightarrow> v = min (separation2 p1 p2 d 0) (separation2 p1 p2 d \<bar>d\<bar>))"
proof -
  from assms(1) obtain a b c k l m where 1: "p_x p1 = Fin a" "p_y p1 = Fin b" "p_z p1 = Fin c"
    "p_vx p1 = Fin k" "p_vy p1 = Fin l" "p_vz p1 = Fin m" by (rule finite_pvE)
  from assms(2) obtain a' b' c' k' l' m' where 2: "p_x p2 = Fin a'" "p_y p2 = Fin b'" "p_z p2 = Fin c'"
    "p_vx p2 = Fin k'" "p_vy p2 = Fin l'" "p_vz p2 = Fin m'" by (rule finite_pvE)
  define s where "s = drift_sign d"
  define n where "n = (a - a') * (s * (k - k')) + (b - b') * (s * (l - l')) + (c - c') * (s * (m - m'))"
  define q where "q = (s * (k - k')) * (s * (k - k')) + (s * (l - l')) * (s * (l - l')) + (s * (m - m')) * (s * (m - m'))"
  define r1 where "r1 = (a - a') * (a - a') + (b - b') * (b - b') + (c - c') * (c - c')"
  define r2 where "r2 = (a - a' + \<bar>d\<bar> * (s * (k - k'))) * (a - a' + \<bar>d\<bar> * (s * (k - k')))
     + (b - b' + \<bar>d\<bar> * (s * (l - l'))) * (b - b' + \<bar>d\<bar> * (s * (l - l')))
     + (c - c' + \<bar>d\<bar> * (s * (m - m'))) * (c - c' + \<bar>d\<bar> * (s * (m - m')))"
  have sep0: "separation2 p1 p2 d 0 = r1"
    by (simp add: separation2_def 1 2 r1_def power2_eq_square)
  have sepd: "separation2 p1 p2 d \<bar>d\<bar> = r2"
    by (simp add: separation2_def 1 2 r2_def power2_eq_square s_def)
  have ts: "tau_star p1 p2 d = n / q"
    by (simp add: tau_star_def 1 2 n_def q_def power2_eq_square s_def)
  let ?cond = "(Fin n / Fin q) / Fin \<bar>d\<bar> \<ge> Fin 0 \<and> (Fin n / Fin q) / Fin \<bar>d\<bar> \<le> Fin 1"
  have unf: "reb_mercurana_predict_rmin2 p1 p2 (Fin d)
      = (if ?cond
         then c_MIN (c_MIN (Fin r1) (Fin r2))
           (let t = Fin n / Fin q in
             (Fin (a - a') + t * Fin (s * (k - k'))) * (Fin (a - a') + t * Fin (s * (k - k')))
           + (Fin (b - b') + t * Fin (s * (l - l'))) * (Fin (b - b') + t * Fin (s * (l - l')))
           + (Fin (c - c') + t * Fin (s * (m - m'))) * (Fin (c - c') + t * Fin (s * (m - m'))))
         else c_MIN (Fin r1) (Fin r2))"
    by (simp add: reb_mercurana_predict_rmin2_def Let_def 1 2 copysign_one minus_double_def
        n_def q_def r1_def r2_def s_def)
  show ?thesis
  proof (cases ?cond)
    case True
    then have *: "q \<noteq> 0" "d \<noteq> 0" "0 \<le> n / q" "n / q \<le> \<bar>d\<bar>"
      using div_in_unit by blast+
    from *(1) obtain X where X: "(let t = Fin n / Fin q in
             (Fin (a - a') + t * Fin (s * (k - k'))) * (Fin (a - a') + t * Fin (s * (k - k')))
           + (Fin (b - b') + t * Fin (s * (l - l'))) * (Fin (b - b') + t * Fin (s * (l - l')))
           + (Fin (c - c') + t * Fin (s * (m - m'))) * (Fin (c - c') + t * Fin (s * (m - m')))) = Fin X"
      by (simp add: Let_def)
    have "reb_mercurana_predict_rmin2 p1 p2 (Fin d) = Fin (min (min r1 r2) X)"
      unfolding unf X using True by (simp add: c_MIN_Fin)
    moreover have "\<not> (tau_star p1 p2 d < 0 \<or> \<bar>d\<bar> < tau_star p1 p2 d)"
      using * by (simp add: ts)
    ultimately show ?thesis
      by (simp add: sep0 sepd min_le_iff_disj)
  next
    case False
    then have "reb_mercurana_predict_rmin2 p1 p2 (Fin d) = Fin (min r1 r2)"
      unfolding unf by (simp only: if_not_P if_False c_MIN_Fin)
    then show ?thesis
      by (simp add: sep0 sepd)
  qed
qed

theorem rmin2_at_most_endpoints_witness:
  "finite_pv (ball 0 0) \<and> finite_pv (mover 3 (- 1)) \<and> tau_star (ball 0 0) (mover 3 (- 1)) 1 < 0
   \<and> reb_mercurana_predict_rmin2 (ball 0 0) (mover 3 (- 1)) (Fin 1) = Fin 4"
proof -
  have a: "finite_pv (ball 0 0)" and b: "finite_pv (mover 3 (- 1))"
    by (simp_all add: finite_pv_def ball_def mover_def)
  have t: "tau_star (ball 0 0) (mover 3 (- 1)) 1 = - 3"
    by (simp add: tau_star_def ball_def mover_def drift_sign_def)
  have s: "separation2 (ball 0 0) (mover 3 (- 1)) 1 0 = 9" "separation2 (ball 0 0) (mover 3 (- 1)) 1 1 = 4"
    by (simp_all add: separation2_def ball_def mover_def drift_sign_def)
  from rmin2_at_most_endpoints [OF a b, of 1]
  have "reb_mercurana_predict_rmin2 (ball 0 0) (mover 3 (- 1)) (Fin 1) = Fin 4"
    by (auto simp: t s)
  with a b t show ?thesis by simp
qed

lemma rmin2_zero_squares:
  assumes "finite_pv p1" "finite_pv p2"
  shows "reb_mercurana_predict_rmin2 p1 p2 (Fin 0)
     = Fin ((val (p_x p1) - val (p_x p2))\<^sup>2 + (val (p_y p1) - val (p_y p2))\<^sup>2
            + (val (p_z p1) - val (p_z p2))\<^sup>2)"
proof -
  from assms(1) obtain a b c d e f where 1: "p_x p1 = Fin a" "p_y p1 = Fin b" "p_z p1 = Fin c"
    "p_vx p1 = Fin d" "p_vy p1 = Fin e" "p_vz p1 = Fin f" by (rule finite_pvE)
  from assms(2) obtain a' b' c' d' e' f' where 2: "p_x p2 = Fin a'" "p_y p2 = Fin b'" "p_z p2 = Fin c'"
    "p_vx p2 = Fin d'" "p_vy p2 = Fin e'" "p_vz p2 = Fin f'" by (rule finite_pvE)
  have cond: "\<not> (Fin 0 \<le> t / fabs (Fin 0) \<and> t / fabs (Fin 0) \<le> Fin 1)" for t
    by (cases t) auto
  show ?thesis
    apply (simp only: reb_mercurana_predict_rmin2_def Let_def cond if_False)
    apply (simp add: 1 2 copysign_def minus_double_def c_MIN_def power2_eq_square)
    done
qed

lemma separation2_start:
  "separation2 p1 p2 d 0 = (val (p_x p1) - val (p_x p2))\<^sup>2 + (val (p_y p1) - val (p_y p2))\<^sup>2
            + (val (p_z p1) - val (p_z p2))\<^sup>2"
  by (simp add: separation2_def)

text \<open>
  Claim C8. With a drift interval of zero the predictor returns the squared separation of
  the two particles, whatever their velocities: the quotients by \<^verbatim>\<open>dt\<close> and by the squared
  relative velocity are infinite or NaN, the test of line 115 fails, and the value returned
  is \<^verbatim>\<open>MIN(r1,r2)\<close> with \<^verbatim>\<open>r2 == r1\<close>.
\<close>

theorem rmin2_zero_interval:
  assumes "finite_pv p1" "finite_pv p2"
  shows "reb_mercurana_predict_rmin2 p1 p2 (Fin 0) = Fin (separation2 p1 p2 0 0)"
  unfolding separation2_start using assms by (rule rmin2_zero_squares)

theorem rmin2_zero_interval_witness:
  "finite_pv (ball 0 0) \<and> finite_pv (mover 3 2)
   \<and> reb_mercurana_predict_rmin2 (ball 0 0) (mover 3 2) (Fin 0) = Fin 9"
proof -
  have a: "finite_pv (ball 0 0)" and b: "finite_pv (mover 3 2)"
    by (simp_all add: finite_pv_def ball_def mover_def)
  have "separation2 (ball 0 0) (mover 3 2) 0 0 = 9"
    by (simp add: separation2_def ball_def mover_def)
  with rmin2_zero_interval [OF a b] a b show ?thesis by simp
qed

section \<open>The switching function: proofs\<close>

text \<open>
  Whatever the radii \<open>ri < ro\<close>, the derivative is a NaN at \<open>d = ri\<close> and at \<open>d = ro\<close>.
\<close>

lemma dLdr_infinity_at_ri:
  "ri < ro \<Longrightarrow> reb_integrator_mercurana_dLdr_infinity (Fin ri) (Fin ri) (Fin ro) = NaN"
  by (simp add: reb_integrator_mercurana_dLdr_infinity_def Let_def minus_double_def L_dfdy_def
      L_f_def)

lemma dLdr_infinity_at_ro:
  "ri < ro \<Longrightarrow> reb_integrator_mercurana_dLdr_infinity (Fin ro) (Fin ri) (Fin ro) = NaN"
  by (simp add: reb_integrator_mercurana_dLdr_infinity_def Let_def minus_double_def L_dfdy_def
      L_f_def)

text \<open>
  Claim C9. The derivative is not 0 at the two endpoints: at \<open>d = ri\<close> the source evaluates
  \<^verbatim>\<open>dfdy(0.)\<close>, that is \<^verbatim>\<open>exp(-1./0.)/(0.*0.)\<close>, the quotient of two zeros, and at \<open>d = ro\<close> it
  evaluates \<^verbatim>\<open>dfdy(1.-1.)\<close>; both times the value returned is a NaN. The function \<open>L\<close> itself
  does take the values 0 and 1 there.
\<close>

theorem dLdr_infinity_nan_at_endpoints:
  "reb_integrator_mercurana_dLdr_infinity (Fin 0) (Fin 0) (Fin 1) = NaN
   \<and> reb_integrator_mercurana_dLdr_infinity (Fin 1) (Fin 0) (Fin 1) = NaN
   \<and> reb_integrator_mercurana_L_infinity (Fin 0) (Fin 0) (Fin 1) = Fin 0
   \<and> reb_integrator_mercurana_L_infinity (Fin 1) (Fin 0) (Fin 1) = Fin 1"
  by (simp add: reb_integrator_mercurana_dLdr_infinity_def reb_integrator_mercurana_L_infinity_def
      Let_def minus_double_def L_dfdy_def L_f_def)

section \<open>Evaluation of the predictor on concrete states\<close>

lemma rmin2_ball:
  "reb_mercurana_predict_rmin2 (ball a ra) (ball b rb) (Fin d) = Fin ((a - b) * (a - b))"
  by (simp add: reb_mercurana_predict_rmin2_def ball_def Let_def copysign_def minus_double_def
      c_MIN_def)

lemma rmin2_drifted_ball:
  "reb_mercurana_predict_rmin2_drifted (ball a ra) (ball b rb) (Fin d) (Fin e)
     = Fin ((a - b) * (a - b))"
  by (simp add: reb_mercurana_predict_rmin2_drifted_def reb_mercurana_predict_rmin2_def ball_def
      Let_def copysign_def minus_double_def c_MIN_def)

lemma fold_weak_cong: "xs = ys \<Longrightarrow> r = r' \<Longrightarrow> fold f xs r = fold f ys r'"
  by simp

lemma blank_sel:
  "particles (blank n nd smax ps) = ps"
  "sim_N (blank n nd smax ps) = n"
  "collision (blank n nd smax ps) = REB_COLLISION_NONE"
  "collisions_allocatedN (blank n nd smax ps) = 0"
  "Nmaxshells (blank n nd smax ps) = smax"
  "N_dominant (blank n nd smax ps) = nd"
  "dcrit (blank n nd smax ps) = (\<lambda>_ _. Fin 1)"
  "map_encounter (blank n nd smax ps) = (\<lambda>_ _. 0)"
  "map_dominant (blank n nd smax ps) = (\<lambda>_ _. 0)"
  "map_subdominant (blank n nd smax ps) = (\<lambda>_ _. 0)"
  "shellN_encounter (blank n nd smax ps) = (\<lambda>_. 0)"
  "shellN_dominant (blank n nd smax ps) = (\<lambda>_. 0)"
  "shellN_subdominant (blank n nd smax ps) = (\<lambda>_. 0)"
  "inshell_encounter (blank n nd smax ps) = (\<lambda>_. 0)"
  "inshell_dominant (blank n nd smax ps) = (\<lambda>_. 0)"
  "inshell_subdominant (blank n nd smax ps) = (\<lambda>_. 0)"
  "maxdrift_encounter (blank n nd smax ps) = (\<lambda>_. Fin 0)"
  "maxdrift_dominant (blank n nd smax ps) = (\<lambda>_. Fin 0)"
  "t_drifted (blank n nd smax ps) = (\<lambda>_. Fin 0)"
  "p0 (blank n nd smax ps) = ps"
  "collisions_N (blank n nd smax ps) = 0"
  "messages (blank n nd smax ps) = []"
  "allocatedN (blank n nd smax ps) = n"
  "is_synchronized (blank n nd smax ps) = 1"
  "safe_mode (blank n nd smax ps) = 1"
  "sim_t (blank n nd smax ps) = Fin 0"
  "sim_dt (blank n nd smax ps) = Fin 1"
  "sim_dt_last_done (blank n nd smax ps) = Fin 0"
  "var_config_N (blank n nd smax ps) = 0"
  "n0 (blank n nd smax ps) = 2"
  "n1 (blank n nd smax ps) = 0"
  "rim_L (blank n nd smax ps) = None"
  by (simp_all add: blank_def)

lemmas scan_eval = predict_scan_def predict_reset_def predict_setup_shell0_def predict_passes_def
  predict_dominant_dominant_def predict_dominant_subdominant_def predict_encounter_encounter_def
  predict_dominant_dominant_pair_def predict_dominant_subdominant_pair_def
  predict_encounter_encounter_pair_def predict_maxdrift_def predict_maxdrift_pair_def
  add_encounter_upto_def check_collision_def reb_mercurana_record_collision_def
  promote_dominant_def promote_subdominant_def promote_encounter_def
  lower_maxdrift_dominant_def lower_maxdrift_encounter_def upd2_def Let_def
  minus_double_def c_MIN_def upt_conv_Cons
  seq_dominant_def seq_subdominant_def seq_encounter_def blank_sel rmin2_ball rmin2_drifted_ball

lemma predict_guard:
  "int s + 1 \<ge> Nmaxshells r \<Longrightarrow> reb_mercurana_encounter_predict cs r dt s = Some r"
  by (subst reb_mercurana_encounter_predict.simps) simp

lemma predict_no_collision:
  "\<not> int s + 1 \<ge> Nmaxshells r \<Longrightarrow> collisions_N (predict_scan r dt s) = 0
    \<Longrightarrow> reb_mercurana_encounter_predict cs r dt s = Some (predict_scan r dt s)"
  by (subst reb_mercurana_encounter_predict.simps) (simp add: Let_def)

lemma predict_collision:
  assumes "\<not> int s + 1 \<ge> Nmaxshells r" and "collisions_N (predict_scan r dt s) \<noteq> 0"
    and "sim_N (cs (predict_scan r dt s)) = sim_N (predict_scan r dt s)"
  shows "reb_mercurana_encounter_predict cs r dt s
     = Some ((cs (predict_scan r dt s))\<lparr>collisions_N := 0\<rparr>)"
  using assms by (subst reb_mercurana_encounter_predict.simps) (simp add: Let_def)

lemma p_r_ball: "p_r (ball a ra) = Fin ra"
  by (simp add: ball_def)



lemma ball_sel:
  "p_x (ball a ra) = Fin a" "p_y (ball a ra) = Fin 0" "p_z (ball a ra) = Fin 0"
  "p_vx (ball a ra) = Fin 0" "p_vy (ball a ra) = Fin 0" "p_vz (ball a ra) = Fin 0"
  by (simp_all add: ball_def)

lemma ball_upd:
  "(ball a ra)\<lparr>p_x := Fin a\<rparr> = ball a ra" "(ball a ra)\<lparr>p_y := Fin 0\<rparr> = ball a ra"
  "(ball a ra)\<lparr>p_z := Fin 0\<rparr> = ball a ra"
  by (simp_all add: ball_def)

text \<open>
  The prediction of shell 0 for two overlapping particles with the direct collision search:
  the pair is recorded, the collision search is called, and both particles are in shell 1.
\<close>

lemma c2_scan_eval:
  "seq_encounter (predict_scan c2_start (Fin 1) 0) 1 = [0, 1]
   \<and> particles (predict_scan c2_start (Fin 1) 0) = (\<lambda>_. ball 0 1)
   \<and> collision (predict_scan c2_start (Fin 1) 0) = REB_COLLISION_DIRECT
   \<and> Nmaxshells (predict_scan c2_start (Fin 1) 0) = 2
   \<and> messages (predict_scan c2_start (Fin 1) 0) = []
   \<and> collisions_N (predict_scan c2_start (Fin 1) 0) = 1"
proof -
  have "let r' = predict_scan ((blank 2 0 2 (\<lambda>_. ball 0 1))\<lparr>collision := REB_COLLISION_DIRECT\<rparr>)
        (Fin 1) 0 in
     seq_encounter r' 1 = [0, 1] \<and> particles r' = (\<lambda>_. ball 0 1)
     \<and> collision r' = REB_COLLISION_DIRECT \<and> Nmaxshells r' = 2 \<and> messages r' = []
     \<and> collisions_N r' = 1"
    by (simp add: scan_eval p_r_ball cong: let_weak_cong fold_weak_cong)
  then show ?thesis
    unfolding Let_def c2_start_def .
qed

lemma c2_shell0_sel:
  "seq_encounter c2_shell0 1 = [0, 1]" "particles c2_shell0 = (\<lambda>_. ball 0 1)"
  "collision c2_shell0 = REB_COLLISION_DIRECT" "Nmaxshells c2_shell0 = 2"
  "collisions_N c2_shell0 = 0" "messages c2_shell0 = [Warning ''reb_collision_search'']"
  using c2_scan_eval
  by (simp_all add: c2_shell0_def logging_search_def reb_warning_def seq_encounter_def)


text \<open>
  Claim C3. The Dom--Sub pass does not keep the markers of the two roles apart. In a
  simulation of one dominant particle 0 and one subdominant particle 1 at the same place,
  the prediction of shell 0 finds the pair closer than the sum of the critical radii and
  appends particle 1 to the subdominant map of shell 1; but the marker it sets to 1 is
  \<^verbatim>\<open>inshell_dominant[1]\<close>, and \<^verbatim>\<open>inshell_subdominant[1]\<close> stays 0: the local pointer
  \<^verbatim>\<open>inshell_subdominant\<close> of line 170 is initialised with \<^verbatim>\<open>rim->inshell_dominant\<close>.
\<close>

theorem subdominant_marker_written_to_dominant:
  "N_dominant c3_start = 1 \<and> sim_N c3_start = 2
   \<and> reb_mercurana_predict_rmin2 (particles c3_start 0) (particles c3_start 1) (Fin 1)
       < (dcrit c3_start 0 0 + dcrit c3_start 0 1) * (dcrit c3_start 0 0 + dcrit c3_start 0 1)
   \<and> reb_mercurana_encounter_predict (\<lambda>r. r) c3_start (Fin 1) 0 = Some c3_after
   \<and> seq_dominant c3_after 1 = [0] \<and> seq_subdominant c3_after 1 = [1]
   \<and> inshell_subdominant c3_after 1 = 0 \<and> inshell_dominant c3_after 1 = 1"
proof -
  have a: "let r' = predict_scan (blank 2 1 2 (\<lambda>_. ball 0 0)) (Fin 1) 0 in
     seq_dominant r' 1 = [0] \<and> seq_subdominant r' 1 = [1] \<and> inshell_subdominant r' 1 = 0
     \<and> inshell_dominant r' 1 = 1 \<and> collisions_N r' = 0"
    by (simp add: scan_eval cong: let_weak_cong fold_weak_cong)
  then have b: "seq_dominant c3_after 1 = [0] \<and> seq_subdominant c3_after 1 = [1]
     \<and> inshell_subdominant c3_after 1 = 0 \<and> inshell_dominant c3_after 1 = 1
     \<and> collisions_N c3_after = 0"
    unfolding Let_def c3_after_def c3_start_def .
  have p: "Nmaxshells c3_start = 2"
    by (simp add: c3_start_def blank_sel)
  have c: "N_dominant c3_start = 1 \<and> sim_N c3_start = 2
     \<and> reb_mercurana_predict_rmin2 (particles c3_start 0) (particles c3_start 1) (Fin 1)
       < (dcrit c3_start 0 0 + dcrit c3_start 0 1) * (dcrit c3_start 0 0 + dcrit c3_start 0 1)"
    by (simp add: c3_start_def blank_sel rmin2_ball)
  have d: "reb_mercurana_encounter_predict (\<lambda>r. r) c3_start (Fin 1) 0 = Some c3_after"
    unfolding c3_after_def using b p by (intro predict_no_collision) (simp_all add: c3_after_def)
  from b c d show ?thesis by blast
qed

text \<open>
  Claim C4. The check for a violation of the maximal drift does not reach every particle of
  shell 0. In \<open>c4_state\<close> the particles 0 and 1 of shell 1 have drifted by 5, more than
  their maximal drift 1; particle 2 is in the encounter map of shell 0, is not in shell 1,
  and the drifted predictor puts it at distance 0 of particle 0, closer than the sum 2 of
  the critical radii. The prediction of shell 1 leaves particle 2 where it is and outside
  shell 1: the inner loop of line 230 runs up to \<^verbatim>\<open>rim->shellN_encounter[0]\<close> but reads
  \<^verbatim>\<open>map_encounter[j]\<close>, the map of shell 1, whose third slot holds 0, not 2.
\<close>

theorem maxdrift_check_misses_shell0_particle:
  "seq_encounter c4_state 0 = [0, 1, 2] \<and> seq_encounter c4_state 1 = [0, 1]
   \<and> inshell_encounter c4_state 2 = 0
   \<and> c_sqrt ((p_x (particles c4_state 0) - p_x (p0 c4_state 0))
               * (p_x (particles c4_state 0) - p_x (p0 c4_state 0)))
       > maxdrift_encounter c4_state 0
   \<and> reb_mercurana_predict_rmin2_drifted (particles c4_state 0) (particles c4_state 2) (Fin 1)
         (t_drifted c4_state 0 - t_drifted c4_state 2)
       < (dcrit c4_state 1 0 + dcrit c4_state 1 2) * (dcrit c4_state 1 0 + dcrit c4_state 1 2)
   \<and> reb_mercurana_encounter_predict (\<lambda>r. r) c4_state (Fin 1) 1 = Some c4_after
   \<and> seq_encounter c4_after 1 = [0, 1] \<and> inshell_encounter c4_after 2 = 0
   \<and> particles c4_after 2 = particles c4_state 2"
proof -
  have a: "let r' = predict_scan ((blank 3 0 3 (\<lambda>_. ball 5 0))
     \<lparr>p0 := (\<lambda>_. ball 0 0)(2 := ball 5 0),
      shellN_encounter := (\<lambda>_. 0)(0 := 3, 1 := 2),
      shellN_subdominant := (\<lambda>_. 0)(0 := 3),
      map_encounter := (\<lambda>_ _. 0)(0 := (\<lambda>k. k), 1 := (\<lambda>_. 0)(0 := 0, 1 := 1)),
      map_subdominant := (\<lambda>_ _. 0)(0 := (\<lambda>k. k)),
      inshell_encounter := (\<lambda>_. 0)(0 := 1, 1 := 1),
      maxdrift_encounter := (\<lambda>_. Fin 1),
      maxdrift_dominant := (\<lambda>_. Fin 1),
      t_drifted := (\<lambda>_. Fin 0)(0 := Fin (1 / 2), 1 := Fin (1 / 2))\<rparr>) (Fin 1) 1 in
     seq_encounter r' 1 = [0, 1] \<and> inshell_encounter r' 2 = 0
     \<and> particles r' 2 = ball 5 0 \<and> collisions_N r' = 0"
    by (simp add: scan_eval ball_def cong: let_weak_cong fold_weak_cong)
  then have b: "seq_encounter c4_after 1 = [0, 1] \<and> inshell_encounter c4_after 2 = 0
     \<and> particles c4_after 2 = ball 5 0 \<and> collisions_N c4_after = 0"
    unfolding Let_def c4_after_def c4_state_def .
  have p: "particles c4_state 2 = ball 5 0" "Nmaxshells c4_state = 3"
    by (simp_all add: c4_state_def blank_sel)
  have c: "seq_encounter c4_state 0 = [0, 1, 2] \<and> seq_encounter c4_state 1 = [0, 1]
   \<and> inshell_encounter c4_state 2 = 0
   \<and> c_sqrt ((p_x (particles c4_state 0) - p_x (p0 c4_state 0))
               * (p_x (particles c4_state 0) - p_x (p0 c4_state 0)))
       > maxdrift_encounter c4_state 0
   \<and> reb_mercurana_predict_rmin2_drifted (particles c4_state 0) (particles c4_state 2) (Fin 1)
         (t_drifted c4_state 0 - t_drifted c4_state 2)
       < (dcrit c4_state 1 0 + dcrit c4_state 1 2) * (dcrit c4_state 1 0 + dcrit c4_state 1 2)"
    by (simp add: c4_state_def blank_sel seq_encounter_def upt_conv_Cons minus_double_def
        rmin2_drifted_ball) (simp add: ball_def)
  have d: "reb_mercurana_encounter_predict (\<lambda>r. r) c4_state (Fin 1) 1 = Some c4_after"
    unfolding c4_after_def using b p by (intro predict_no_collision) (simp_all add: c4_after_def)
  have e: "particles c4_after 2 = particles c4_state 2"
    using b p by simp
  from b c d e show ?thesis by blast
qed

section \<open>The two parts of a step: proofs\<close>

text \<open>
  With an invalid configuration \<^verbatim>\<open>reb_integrator_mercurana_part1\<close> reports an error and
  does nothing else: what follows the checks is not run.
\<close>

lemma part1_invalid:
  assumes "Nmaxshells r \<le> 0 \<or> (n0 r \<noteq> 0 \<and> Nmaxshells r = 1) \<or> (n1 r \<noteq> 0 \<and> Nmaxshells r = 2)
     \<or> (kappa r \<le> Fin 0 \<and> Nmaxshells r > 1)"
    and "var_config_N r = 0"
  shows "\<exists>msg. reb_integrator_mercurana_part1 setup r = reb_error r msg"
  using assms by (auto simp: reb_integrator_mercurana_part1_def)

lemma part2_guard:
  "allocatedN r < sim_N r \<Longrightarrow> reb_integrator_mercurana_part2 pre step post r = r"
  by (simp add: reb_integrator_mercurana_part2_def)

text \<open>
  Claim C10. A step with an invalid configuration is not always without effect. In
  \<open>c10_state\<close> the arrays have been allocated by an earlier step and \<^verbatim>\<open>kappa\<close> is 0 with ten
  shells. \<^verbatim>\<open>reb_integrator_mercurana_part1\<close> reports the error and changes nothing else;
  but \<^verbatim>\<open>reb_integrator_mercurana_part2\<close> recognises an earlier error by
  \<^verbatim>\<open>rim->allocatedN < r->N\<close> only, which is false here, and runs the step: it resets
  \<^verbatim>\<open>t_drifted\<close>, calls the driver, which advances the time, and sets \<^verbatim>\<open>dt_last_done\<close>.
\<close>

theorem part2_runs_after_configuration_error:
  "reb_integrator_mercurana_part1 (\<lambda>r. r) c10_state
     = reb_error c10_state ''kappa>0 is required if Nmaxshells>1.''
   \<and> t_drifted (reb_error c10_state ''kappa>0 is required if Nmaxshells>1.'') 0 = Fin 1
   \<and> sim_t (reb_error c10_state ''kappa>0 is required if Nmaxshells>1.'') = Fin 0
   \<and> sim_dt_last_done (reb_error c10_state ''kappa>0 is required if Nmaxshells>1.'') = Fin 0
   \<and> t_drifted (reb_integrator_mercurana_part2 eos_idle eos_clock eos_idle
         (reb_error c10_state ''kappa>0 is required if Nmaxshells>1.'')) 0 = Fin 0
   \<and> sim_t (reb_integrator_mercurana_part2 eos_idle eos_clock eos_idle
         (reb_error c10_state ''kappa>0 is required if Nmaxshells>1.'')) = Fin 1
   \<and> sim_dt_last_done (reb_integrator_mercurana_part2 eos_idle eos_clock eos_idle
         (reb_error c10_state ''kappa>0 is required if Nmaxshells>1.'')) = Fin 1"
  by (simp add: reb_integrator_mercurana_part1_def reb_integrator_mercurana_part2_def
      reb_integrator_mercurana_synchronize_def c10_state_def reb_error_def blank_sel
      eos_idle_def eos_clock_def Let_def upt_conv_Cons cong: let_weak_cong fold_weak_cong)

section \<open>The drift step: proofs\<close>












section \<open>The three passes: what they keep\<close>

subsection \<open>Loops\<close>

lemma fold_rel:
  assumes "R r r'" and "\<And>x r r'. x \<in> set xs \<Longrightarrow> R r r' \<Longrightarrow> R (f x r) (g x r')"
  shows "R (fold f xs r) (fold g xs r')"
  using assms by (induction xs arbitrary: r r') auto

lemma fold_inv:
  assumes "P r" and "\<And>x r. x \<in> set xs \<Longrightarrow> P r \<Longrightarrow> P (f x r)"
  shows "P (fold f xs r)"
  using assms by (induction xs arbitrary: r) auto

lemma upd2_apply: "upd2 a s k v s' = (if s' = s then (a s)(k := v) else a s')"
  by (simp add: upd2_def)

text \<open>
  A relation between two runs of the three passes is kept by the passes when every pair
  body keeps it, provided the relation fixes the entries of the maps that the passes read.
\<close>

lemma passes_rel:
  assumes init: "R r r'"
    and rows: "\<And>r r' i. R r r' \<Longrightarrow>
        (i < nD \<longrightarrow> map_dominant r s i = fD i \<and> map_dominant r' s i = fD i)
      \<and> (i < nE \<longrightarrow> map_encounter r s i = fE i \<and> map_encounter r' s i = fE i)"
    and dd: "\<And>r r' i j. R r r' \<Longrightarrow> i < nD \<Longrightarrow> j < nD \<Longrightarrow>
        R (predict_dominant_dominant_pair r dt s (fD i) j) (predict_dominant_dominant_pair r' dt s (fD i) j)"
    and ds: "\<And>r r' i j. R r r' \<Longrightarrow> i < nD \<Longrightarrow> j < nS \<Longrightarrow>
        R (predict_dominant_subdominant_pair r dt s (fD i) j) (predict_dominant_subdominant_pair r' dt s (fD i) j)"
    and ee: "\<And>r r' i j. R r r' \<Longrightarrow> i < nE \<Longrightarrow> j < nE \<Longrightarrow>
        R (predict_encounter_encounter_pair r dt s (fE i) j) (predict_encounter_encounter_pair r' dt s (fE i) j)"
  shows "R (predict_passes r dt s nD nS nE) (predict_passes r' dt s nD nS nE)"
proof -
  have 1: "R (predict_dominant_dominant r dt s nD) (predict_dominant_dominant r' dt s nD)"
    unfolding predict_dominant_dominant_def
  proof (rule fold_rel [where R = R, OF init])
    fix i a b assume i: "i \<in> set [0..<nD]" and R: "R a b"
    have "R (fold (\<lambda>j r. predict_dominant_dominant_pair r dt s (fD i) j) [i + 1..<nD] a)
            (fold (\<lambda>j r. predict_dominant_dominant_pair r dt s (fD i) j) [i + 1..<nD] b)"
      using R i by (intro fold_rel [where R = R]) (auto intro: dd)
    then show "R (let mi = map_dominant a s i in
                    fold (\<lambda>j r. predict_dominant_dominant_pair r dt s mi j) [i + 1..<nD] a)
                 (let mi = map_dominant b s i in
                    fold (\<lambda>j r. predict_dominant_dominant_pair r dt s mi j) [i + 1..<nD] b)"
      using rows [OF R, of i] i by simp
  qed
  have 2: "R (predict_dominant_subdominant a dt s nD nS) (predict_dominant_subdominant b dt s nD nS)"
    if ab: "R a b" for a b
    unfolding predict_dominant_subdominant_def
  proof (rule fold_rel [where R = R, OF ab])
    fix i a b assume i: "i \<in> set [0..<nD]" and R: "R a b"
    have "R (fold (\<lambda>j r. predict_dominant_subdominant_pair r dt s (fD i) j) [0..<nS] a)
            (fold (\<lambda>j r. predict_dominant_subdominant_pair r dt s (fD i) j) [0..<nS] b)"
      using R i by (intro fold_rel [where R = R]) (auto intro: ds)
    then show "R (let mi = map_dominant a s i in
                    fold (\<lambda>j r. predict_dominant_subdominant_pair r dt s mi j) [0..<nS] a)
                 (let mi = map_dominant b s i in
                    fold (\<lambda>j r. predict_dominant_subdominant_pair r dt s mi j) [0..<nS] b)"
      using rows [OF R, of i] i by simp
  qed
  have 3: "R (predict_encounter_encounter a dt s nE) (predict_encounter_encounter b dt s nE)"
    if ab: "R a b" for a b
    unfolding predict_encounter_encounter_def
  proof (rule fold_rel [where R = R, OF ab])
    fix i a b assume i: "i \<in> set [0..<nE]" and R: "R a b"
    have "R (fold (\<lambda>j r. predict_encounter_encounter_pair r dt s (fE i) j) [i + 1..<nE] a)
            (fold (\<lambda>j r. predict_encounter_encounter_pair r dt s (fE i) j) [i + 1..<nE] b)"
      using R i by (intro fold_rel [where R = R]) (auto intro: ee)
    then show "R (let mi = map_encounter a s i in
                    fold (\<lambda>j r. predict_encounter_encounter_pair r dt s mi j) [i + 1..<nE] a)
                 (let mi = map_encounter b s i in
                    fold (\<lambda>j r. predict_encounter_encounter_pair r dt s mi j) [i + 1..<nE] b)"
      using rows [OF R, of i] i by simp
  qed
  show ?thesis
    unfolding predict_passes_def Let_def by (intro 3 2 1)
qed

lemma passes_inv:
  assumes init: "P r"
    and rows: "\<And>r i. P r \<Longrightarrow> (i < nD \<longrightarrow> map_dominant r s i = fD i) \<and> (i < nE \<longrightarrow> map_encounter r s i = fE i)"
    and dd: "\<And>r i j. P r \<Longrightarrow> i < nD \<Longrightarrow> j < nD \<Longrightarrow> P (predict_dominant_dominant_pair r dt s (fD i) j)"
    and ds: "\<And>r i j. P r \<Longrightarrow> i < nD \<Longrightarrow> j < nS \<Longrightarrow> P (predict_dominant_subdominant_pair r dt s (fD i) j)"
    and ee: "\<And>r i j. P r \<Longrightarrow> i < nE \<Longrightarrow> j < nE \<Longrightarrow> P (predict_encounter_encounter_pair r dt s (fE i) j)"
  shows "P (predict_passes r dt s nD nS nE)"
proof -
  have "(\<lambda>a b. P a \<and> b = a) (predict_passes r dt s nD nS nE) (predict_passes r dt s nD nS nE)"
    by (rule passes_rel [where R = "\<lambda>a b. P a \<and> b = a" and fD = fD and fE = fE])
      (use assms in auto)
  then show ?thesis by simp
qed

subsection \<open>What the parts of the prediction leave alone\<close>

lemma check_collision_sel [simp]:
  "particles (check_collision r x i j) = particles r"
  "sim_N (check_collision r x i j) = sim_N r"
  "N_dominant (check_collision r x i j) = N_dominant r"
  "collision (check_collision r x i j) = collision r"
  "dcrit (check_collision r x i j) = dcrit r"
  "Nmaxshells (check_collision r x i j) = Nmaxshells r"
  "map_dominant (check_collision r x i j) = map_dominant r"
  "map_subdominant (check_collision r x i j) = map_subdominant r"
  "map_encounter (check_collision r x i j) = map_encounter r"
  "shellN_dominant (check_collision r x i j) = shellN_dominant r"
  "shellN_subdominant (check_collision r x i j) = shellN_subdominant r"
  "shellN_encounter (check_collision r x i j) = shellN_encounter r"
  "inshell_dominant (check_collision r x i j) = inshell_dominant r"
  "inshell_encounter (check_collision r x i j) = inshell_encounter r"
  "maxdrift_dominant (check_collision r x i j) = maxdrift_dominant r"
  "maxdrift_encounter (check_collision r x i j) = maxdrift_encounter r"
  by (simp_all add: check_collision_def reb_mercurana_record_collision_def Let_def)

subsection \<open>Nesting\<close>




lemma scan_inv_frame [simp]:
  "scan_inv (check_collision r x i j) s fD fS fE nD nS nE = scan_inv r s fD fS fE nD nS nE"
  "scan_inv (lower_maxdrift_dominant r m v) s fD fS fE nD nS nE = scan_inv r s fD fS fE nD nS nE"
  "scan_inv (lower_maxdrift_encounter r m v) s fD fS fE nD nS nE = scan_inv r s fD fS fE nD nS nE"
  by (simp_all add: scan_inv_def lower_maxdrift_dominant_def lower_maxdrift_encounter_def)



subsection \<open>The setup of shell 0 in closed form\<close>

lemma fold_map_dominant_row:
  "fold (\<lambda>i r. r\<lparr>map_dominant := upd2 (map_dominant r) 0 i (g i)\<rparr>) [0..<n] (r::reb_simulation)
     = r\<lparr>map_dominant := (\<lambda>s k. if s = 0 \<and> k < n then g k else map_dominant r s k)\<rparr>"
proof (induction n)
  case 0
  show ?case by simp
next
  case (Suc n)
  have "(\<lambda>s k. if s = 0 \<and> k < Suc n then g k else map_dominant r s k)
      = upd2 (\<lambda>s k. if s = 0 \<and> k < n then g k else map_dominant r s k) 0 n (g n)"
    by (intro ext) (auto simp: less_Suc_eq upd2_apply)
  then show ?case by (simp add: Suc)
qed

lemma fold_map_sub_enc_row:
  "fold (\<lambda>i r. r\<lparr>map_subdominant := upd2 (map_subdominant r) 0 i (g i),
                   map_encounter := upd2 (map_encounter r) 0 i (g i)\<rparr>) [0..<n] (r::reb_simulation)
     = r\<lparr>map_subdominant := (\<lambda>s k. if s = 0 \<and> k < n then g k else map_subdominant r s k),
          map_encounter := (\<lambda>s k. if s = 0 \<and> k < n then g k else map_encounter r s k)\<rparr>"
proof (induction n)
  case 0
  show ?case by simp
next
  case (Suc n)
  have "(\<lambda>s k. if s = 0 \<and> k < Suc n then g k else map_subdominant r s k)
      = upd2 (\<lambda>s k. if s = 0 \<and> k < n then g k else map_subdominant r s k) 0 n (g n)"
     "(\<lambda>s k. if s = 0 \<and> k < Suc n then g k else map_encounter r s k)
      = upd2 (\<lambda>s k. if s = 0 \<and> k < n then g k else map_encounter r s k) 0 n (g n)"
    by (intro ext; auto simp: less_Suc_eq upd2_apply)+
  then show ?case by (simp add: Suc)
qed

lemma fold_reset_particles:
  "fold (\<lambda>i r. r\<lparr>maxdrift_dominant := (maxdrift_dominant r)(i := c),
                   maxdrift_encounter := (maxdrift_encounter r)(i := c),
                   inshell_encounter := (inshell_encounter r)(i := 0),
                   inshell_dominant := (inshell_dominant r)(i := 0)\<rparr>) [0..<n] (r::reb_simulation)
     = r\<lparr>maxdrift_dominant := (\<lambda>i. if i < n then c else maxdrift_dominant r i),
          maxdrift_encounter := (\<lambda>i. if i < n then c else maxdrift_encounter r i),
          inshell_encounter := (\<lambda>i. if i < n then 0 else inshell_encounter r i),
          inshell_dominant := (\<lambda>i. if i < n then 0 else inshell_dominant r i)\<rparr>"
proof -
  define F where "F = (\<lambda>i (r::reb_simulation). r\<lparr>maxdrift_dominant := (maxdrift_dominant r)(i := c),
                   maxdrift_encounter := (maxdrift_encounter r)(i := c),
                   inshell_encounter := (inshell_encounter r)(i := 0),
                   inshell_dominant := (inshell_dominant r)(i := 0)\<rparr>)"
  have "fold F [0..<n] r
     = r\<lparr>maxdrift_dominant := (\<lambda>i. if i < n then c else maxdrift_dominant r i),
          maxdrift_encounter := (\<lambda>i. if i < n then c else maxdrift_encounter r i),
          inshell_encounter := (\<lambda>i. if i < n then 0 else inshell_encounter r i),
          inshell_dominant := (\<lambda>i. if i < n then 0 else inshell_dominant r i)\<rparr>"
  proof (induction n)
    case 0
    show ?case by simp
  next
    case (Suc n)
    have "fold F [0..<Suc n] r = F n (fold F [0..<n] r)"
      by simp
    also have "\<dots> = r\<lparr>maxdrift_dominant := (\<lambda>i. if i < Suc n then c else maxdrift_dominant r i),
          maxdrift_encounter := (\<lambda>i. if i < Suc n then c else maxdrift_encounter r i),
          inshell_encounter := (\<lambda>i. if i < Suc n then 0 else inshell_encounter r i),
          inshell_dominant := (\<lambda>i. if i < Suc n then 0 else inshell_dominant r i)\<rparr>"
      unfolding Suc by (simp add: F_def fun_eq_iff less_Suc_eq)
    finally show ?case .
  qed
  then show ?thesis by (simp add: F_def)
qed

lemma predict_setup_shell0_eq:
  "predict_setup_shell0 r =
     r\<lparr>shellN_dominant := (shellN_dominant r)(0 := N_dominant r),
       shellN_subdominant := (shellN_subdominant r)(0 := sim_N r - N_dominant r),
       shellN_encounter := (shellN_encounter r)(0 := sim_N r - N_dominant r),
       map_dominant := (\<lambda>s k. if s = 0 \<and> k < N_dominant r then k else map_dominant r s k),
       map_subdominant := (\<lambda>s k. if s = 0 \<and> k < sim_N r - N_dominant r then N_dominant r + k else map_subdominant r s k),
       map_encounter := (\<lambda>s k. if s = 0 \<and> k < sim_N r - N_dominant r then N_dominant r + k else map_encounter r s k),
       maxdrift_dominant := (\<lambda>i. if i < sim_N r then c_1e300 else maxdrift_dominant r i),
       maxdrift_encounter := (\<lambda>i. if i < sim_N r then c_1e300 else maxdrift_encounter r i),
       inshell_encounter := (\<lambda>i. if i < sim_N r then 0 else inshell_encounter r i),
       inshell_dominant := (\<lambda>i. if i < sim_N r then 0 else inshell_dominant r i)\<rparr>"
  by (simp add: predict_setup_shell0_def Let_def fold_map_dominant_row fold_map_sub_enc_row
        fold_reset_particles cong: if_cong)

subsection \<open>The check of the maximal drift\<close>






subsection \<open>After the scan, shell s + 1 is nested in shell s\<close>

lemma predict_reset_sel [simp]:
  "map_dominant (predict_reset r s) = map_dominant r"
  "map_subdominant (predict_reset r s) = map_subdominant r"
  "map_encounter (predict_reset r s) = map_encounter r"
  "shellN_dominant (predict_reset r s) = (shellN_dominant r)(s + 1 := 0)"
  "shellN_subdominant (predict_reset r s) = (shellN_subdominant r)(s + 1 := 0)"
  "shellN_encounter (predict_reset r s) = (shellN_encounter r)(s + 1 := 0)"
  "sim_N (predict_reset r s) = sim_N r"
  "N_dominant (predict_reset r s) = N_dominant r"
  by (simp_all add: predict_reset_def Let_def)


section \<open>The nesting of the shells\<close>



lemma shell_members_collisions_N [simp]:
  "shell_members (a\<lparr>collisions_N := n\<rparr>) = shell_members a"
  by (simp add: shell_members_def seq_dominant_def seq_subdominant_def seq_encounter_def fun_eq_iff)







section \<open>Two predictions in succession\<close>

text \<open>Two runs of the passes from states that agree on what the passes read agree on what
  they write.\<close>

lemma scan_eq_check_collision:
  "scan_eq a b \<Longrightarrow> scan_eq (check_collision a x i j) (check_collision b x i j)"
  by (simp add: scan_eq_def check_collision_def reb_mercurana_record_collision_def Let_def)

lemma scan_eq_promote_dominant:
  "scan_eq a b \<Longrightarrow> scan_eq (promote_dominant a s m) (promote_dominant b s m)"
  by (simp add: scan_eq_def promote_dominant_def upd2_apply)

lemma scan_eq_promote_subdominant:
  "scan_eq a b \<Longrightarrow> scan_eq (promote_subdominant a s m) (promote_subdominant b s m)"
  by (simp add: scan_eq_def promote_subdominant_def upd2_apply)

lemma scan_eq_promote_encounter:
  "scan_eq a b \<Longrightarrow> scan_eq (promote_encounter a s m) (promote_encounter b s m)"
  by (simp add: scan_eq_def promote_encounter_def upd2_apply)

lemma scan_eq_maxdrift_dominant:
  "scan_eq a b \<Longrightarrow> scan_eq (lower_maxdrift_dominant a m v) (lower_maxdrift_dominant b m v)"
  by (simp add: scan_eq_def lower_maxdrift_dominant_def)

lemma scan_eq_maxdrift_encounter:
  "scan_eq a b \<Longrightarrow> scan_eq (lower_maxdrift_encounter a m v) (lower_maxdrift_encounter b m v)"
  by (simp add: scan_eq_def lower_maxdrift_encounter_def)

lemma scan_eq_sel:
  assumes "scan_eq a b"
  shows "particles a = particles b" "dcrit a = dcrit b"
    "k < shellN_dominant a t \<Longrightarrow> map_dominant a t k = map_dominant b t k"
    "k < shellN_subdominant a t \<Longrightarrow> map_subdominant a t k = map_subdominant b t k"
    "k < shellN_encounter a t \<Longrightarrow> map_encounter a t k = map_encounter b t k"
    "shellN_dominant a = shellN_dominant b" "shellN_subdominant a = shellN_subdominant b"
    "shellN_encounter a = shellN_encounter b"
  using assms by (simp_all add: scan_eq_def)

text \<open>The bounds of the passes stay below the counts of the shell.\<close>

lemma counts_ok_frame [simp]:
  "counts_ok (check_collision a x i j) s nD nS nE fD fE = counts_ok a s nD nS nE fD fE"
  "counts_ok (lower_maxdrift_dominant a m v) s nD nS nE fD fE = counts_ok a s nD nS nE fD fE"
  "counts_ok (lower_maxdrift_encounter a m v) s nD nS nE fD fE = counts_ok a s nD nS nE fD fE"
  "counts_ok (promote_dominant a s m) s nD nS nE fD fE = counts_ok a s nD nS nE fD fE"
  "counts_ok (promote_subdominant a s m) s nD nS nE fD fE = counts_ok a s nD nS nE fD fE"
  "counts_ok (promote_encounter a s m) s nD nS nE fD fE = counts_ok a s nD nS nE fD fE"
  by (simp_all add: counts_ok_def promote_dominant_def promote_subdominant_def
      promote_encounter_def upd2_apply lower_maxdrift_dominant_def lower_maxdrift_encounter_def)

lemma scan_eq_passes:
  assumes eq: "scan_eq a b" and ok: "counts_ok a s nD nS nE fD fE"
  shows "scan_eq (predict_passes a dt s nD nS nE) (predict_passes b dt s nD nS nE)"
proof -
  let ?R = "\<lambda>a b. scan_eq a b \<and> counts_ok a s nD nS nE fD fE"
  have "?R (predict_passes a dt s nD nS nE) (predict_passes b dt s nD nS nE)"
  proof (rule passes_rel [where R = ?R and fD = fD and fE = fE])
    show "?R a b" using eq ok by simp
  next
    fix a b i assume "?R a b"
    then have R: "scan_eq a b" and ok: "counts_ok a s nD nS nE fD fE"
      by simp_all
    have "map_dominant a s i = fD i \<and> map_dominant b s i = fD i" if "i < nD"
    proof -
      from that ok have "i < shellN_dominant a s" "map_dominant a s i = fD i"
        by (simp_all add: counts_ok_def)
      then show ?thesis using scan_eq_sel(3) [OF R, of i s] by simp
    qed
    moreover have "map_encounter a s i = fE i \<and> map_encounter b s i = fE i" if "i < nE"
    proof -
      from that ok have "i < shellN_encounter a s" "map_encounter a s i = fE i"
        by (simp_all add: counts_ok_def)
      then show ?thesis using scan_eq_sel(5) [OF R, of i s] by simp
    qed
    ultimately show "(i < nD \<longrightarrow> map_dominant a s i = fD i \<and> map_dominant b s i = fD i)
      \<and> (i < nE \<longrightarrow> map_encounter a s i = fE i \<and> map_encounter b s i = fE i)"
      by blast
  next
    fix a b i j assume R: "?R a b" and ij: "i < nD" "j < nD"
    then have "j < shellN_dominant a s"
      by (simp add: counts_ok_def)
    with R have mj: "map_dominant b s j = map_dominant a s j"
      using scan_eq_sel(3) [of a b j s] by simp
    from R have p: "particles b = particles a" "dcrit b = dcrit a"
      by (simp_all add: scan_eq_def)
    from R show "?R (predict_dominant_dominant_pair a dt s (fD i) j)
       (predict_dominant_dominant_pair b dt s (fD i) j)"
      by (simp add: predict_dominant_dominant_pair_def Let_def mj p scan_eq_check_collision
          scan_eq_promote_dominant scan_eq_maxdrift_dominant)
  next
    fix a b i j assume R: "?R a b" and ij: "i < nD" "j < nS"
    then have "j < shellN_subdominant a s"
      by (simp add: counts_ok_def)
    with R have mj: "map_subdominant b s j = map_subdominant a s j"
      using scan_eq_sel(4) [of a b j s] by simp
    from R have p: "particles b = particles a" "dcrit b = dcrit a"
      by (simp_all add: scan_eq_def)
    from R show "?R (predict_dominant_subdominant_pair a dt s (fD i) j)
       (predict_dominant_subdominant_pair b dt s (fD i) j)"
      by (simp add: predict_dominant_subdominant_pair_def Let_def mj p scan_eq_check_collision
          scan_eq_promote_dominant scan_eq_promote_subdominant scan_eq_maxdrift_dominant)
  next
    fix a b i j assume R: "?R a b" and ij: "i < nE" "j < nE"
    then have "j < shellN_encounter a s"
      by (simp add: counts_ok_def)
    with R have mj: "map_encounter b s j = map_encounter a s j"
      using scan_eq_sel(5) [of a b j s] by simp
    from R have p: "particles b = particles a" "dcrit b = dcrit a"
      by (simp_all add: scan_eq_def)
    from R show "?R (predict_encounter_encounter_pair a dt s (fE i) j)
       (predict_encounter_encounter_pair b dt s (fE i) j)"
      by (simp add: predict_encounter_encounter_pair_def Let_def mj p scan_eq_check_collision
          scan_eq_promote_encounter scan_eq_maxdrift_encounter)
  qed
  then show ?thesis by simp
qed

lemma scan_eq_members:
  assumes "scan_eq a b"
  shows "shell_members a = shell_members b"
proof
  fix t
  have "seq_dominant a t = seq_dominant b t"
    using assms by (simp add: seq_dominant_def scan_eq_def)
  moreover have "seq_subdominant a t = seq_subdominant b t"
    using assms by (simp add: seq_subdominant_def scan_eq_def)
  moreover have "seq_encounter a t = seq_encounter b t"
    using assms by (simp add: seq_encounter_def scan_eq_def)
  ultimately show "shell_members a t = shell_members b t"
    by (simp add: shell_members_def)
qed

lemma scan_frame_refl: "scan_frame b b s"
  by (simp add: scan_frame_def)

lemma scan_frame_check_collision [simp]:
  "scan_frame b (check_collision a x i j) s = scan_frame b a s"
  by (simp add: scan_frame_def)

lemma scan_frame_promote:
  assumes "scan_frame b a s" "m < sim_N b"
  shows "scan_frame b (promote_dominant a s m) s"
    and "scan_frame b (promote_subdominant a s m) s"
    and "scan_frame b (promote_encounter a s m) s"
    and "scan_frame b (lower_maxdrift_dominant a m v) s"
    and "scan_frame b (lower_maxdrift_encounter a m v) s"
  using assms
  by (simp_all add: scan_frame_def promote_dominant_def promote_subdominant_def
      promote_encounter_def lower_maxdrift_dominant_def lower_maxdrift_encounter_def upd2_apply)

lemma scan_frame_passes:
  assumes dom: "\<And>i. i < nD \<Longrightarrow> map_dominant b s i < sim_N b"
    and sub: "\<And>i. i < nS \<Longrightarrow> map_subdominant b s i < sim_N b"
    and enc: "\<And>i. i < nE \<Longrightarrow> map_encounter b s i < sim_N b"
  shows "scan_frame b (predict_passes b dt s nD nS nE) s"
proof (rule passes_inv [where P = "\<lambda>a. scan_frame b a s" and fD = "map_dominant b s"
      and fE = "map_encounter b s"])
  show "scan_frame b b s" by (rule scan_frame_refl)
next
  fix a i assume "scan_frame b a s"
  then show "(i < nD \<longrightarrow> map_dominant a s i = map_dominant b s i)
     \<and> (i < nE \<longrightarrow> map_encounter a s i = map_encounter b s i)"
    by (simp add: scan_frame_def)
next
  fix a i j assume a: "scan_frame b a s" and ij: "i < nD" "j < nD"
  then have mj: "map_dominant a s j = map_dominant b s j" by (simp add: scan_frame_def)
  show "scan_frame b (predict_dominant_dominant_pair a dt s (map_dominant b s i) j) s"
    using a dom [OF ij(1)] dom [OF ij(2)]
    by (simp add: predict_dominant_dominant_pair_def Let_def mj scan_frame_promote)
next
  fix a i j assume a: "scan_frame b a s" and ij: "i < nD" "j < nS"
  then have mj: "map_subdominant a s j = map_subdominant b s j" by (simp add: scan_frame_def)
  show "scan_frame b (predict_dominant_subdominant_pair a dt s (map_dominant b s i) j) s"
    using a dom [OF ij(1)] sub [OF ij(2)]
    by (simp add: predict_dominant_subdominant_pair_def Let_def mj scan_frame_promote)
next
  fix a i j assume a: "scan_frame b a s" and ij: "i < nE" "j < nE"
  then have mj: "map_encounter a s j = map_encounter b s j" by (simp add: scan_frame_def)
  show "scan_frame b (predict_encounter_encounter_pair a dt s (map_encounter b s i) j) s"
    using a enc [OF ij(1)] enc [OF ij(2)]
    by (simp add: predict_encounter_encounter_pair_def Let_def mj scan_frame_promote)
qed

text \<open>The state in which the passes of shell 0 start.\<close>

lemma predict_scan_0:
  "predict_scan r dt 0 = predict_passes (scan_start0 r) dt 0 (N_dominant r)
     (sim_N r - N_dominant r) (sim_N r - N_dominant r)"
  by (simp add: predict_scan_def Let_def scan_start0_def predict_setup_shell0_eq)

lemma scan_start0_sel:
  "sim_N (scan_start0 r) = sim_N r"
  "N_dominant (scan_start0 r) = N_dominant r"
  "map_dominant (scan_start0 r) 0 i = (if i < N_dominant r then i else map_dominant r 0 i)"
  "map_subdominant (scan_start0 r) 0 i
     = (if i < sim_N r - N_dominant r then N_dominant r + i else map_subdominant r 0 i)"
  "map_encounter (scan_start0 r) 0 i
     = (if i < sim_N r - N_dominant r then N_dominant r + i else map_encounter r 0 i)"
  "shellN_dominant (scan_start0 r) 0 = N_dominant r"
  "shellN_subdominant (scan_start0 r) 0 = sim_N r - N_dominant r"
  "shellN_encounter (scan_start0 r) 0 = sim_N r - N_dominant r"
  by (simp_all add: scan_start0_def predict_setup_shell0_eq)

lemma scan_frame_scan0:
  assumes "N_dominant r \<le> sim_N r"
  shows "scan_frame (scan_start0 r) (predict_scan r dt 0) 0"
  unfolding predict_scan_0
  using assms by (intro scan_frame_passes) (simp_all add: scan_start0_sel)

lemma scan_eq_restart:
  assumes "scan_frame (scan_start0 r) a 0"
  shows "scan_eq (scan_start0 a) (scan_start0 r)"
  using assms
  by (simp add: scan_eq_def scan_frame_def scan_start0_def predict_setup_shell0_eq fun_eq_iff
      predict_reset_def)

lemma counts_ok_start0:
  "counts_ok (scan_start0 r) 0 (N_dominant r) (sim_N r - N_dominant r) (sim_N r - N_dominant r)
     (map_dominant (scan_start0 r) 0) (map_encounter (scan_start0 r) 0)"
  by (simp add: counts_ok_def scan_start0_sel)

lemma predict_scan_0_twice:
  assumes "N_dominant r \<le> sim_N r"
  shows "scan_eq (predict_scan (predict_scan r dt 0) dt 0) (predict_scan r dt 0)"
proof -
  define a where "a = predict_scan r dt 0"
  have fr: "scan_frame (scan_start0 r) a 0"
    unfolding a_def by (rule scan_frame_scan0 [OF assms])
  then have N: "sim_N a = sim_N r" "N_dominant a = N_dominant r"
    by (simp_all add: scan_frame_def scan_start0_sel)
  have "scan_eq (scan_start0 a) (scan_start0 r)"
    by (rule scan_eq_restart [OF fr])
  moreover have "counts_ok (scan_start0 a) 0 (N_dominant r) (sim_N r - N_dominant r)
      (sim_N r - N_dominant r) (map_dominant (scan_start0 a) 0) (map_encounter (scan_start0 a) 0)"
    using counts_ok_start0 [of a] by (simp add: N)
  ultimately have "scan_eq
     (predict_passes (scan_start0 a) dt 0 (N_dominant r) (sim_N r - N_dominant r) (sim_N r - N_dominant r))
     (predict_passes (scan_start0 r) dt 0 (N_dominant r) (sim_N r - N_dominant r) (sim_N r - N_dominant r))"
    by (rule scan_eq_passes)
  moreover have "predict_scan a dt 0 = predict_passes (scan_start0 a) dt 0 (N_dominant r)
      (sim_N r - N_dominant r) (sim_N r - N_dominant r)"
    by (simp only: predict_scan_0 N)
  moreover have "a = predict_passes (scan_start0 r) dt 0 (N_dominant r)
      (sim_N r - N_dominant r) (sim_N r - N_dominant r)"
    by (simp only: a_def predict_scan_0)
  ultimately have "scan_eq (predict_scan a dt 0) a"
    by (simp only:)
  then show ?thesis
    by (simp only: a_def)
qed

lemma scan_start0_Nmaxshells: "Nmaxshells (scan_start0 r) = Nmaxshells r"
  by (simp add: scan_start0_def predict_setup_shell0_eq predict_reset_def)

lemma predict_scan_0_Nmaxshells:
  assumes "N_dominant r \<le> sim_N r"
  shows "Nmaxshells (predict_scan r dt 0) = Nmaxshells r"
  using scan_frame_scan0 [OF assms, of dt] by (simp add: scan_frame_def scan_start0_Nmaxshells)

lemma scan_frame_trans:
  "scan_frame b a s \<Longrightarrow> scan_frame a c s \<Longrightarrow> scan_frame b c s"
  by (simp add: scan_frame_def)

lemma scan_frame_collisions_N [simp]:
  "scan_frame b (a\<lparr>collisions_N := n\<rparr>) s = scan_frame b a s"
  by (simp add: scan_frame_def)

lemma predict_scan_0_restart:
  assumes fr: "scan_frame (scan_start0 r) a 0"
  shows "scan_eq (predict_scan a dt 0) (predict_scan r dt 0)"
proof -
  from fr have N: "sim_N a = sim_N r" "N_dominant a = N_dominant r"
    by (simp_all add: scan_frame_def scan_start0_sel)
  have "scan_eq (scan_start0 a) (scan_start0 r)"
    by (rule scan_eq_restart [OF fr])
  moreover have "counts_ok (scan_start0 a) 0 (N_dominant r) (sim_N r - N_dominant r)
      (sim_N r - N_dominant r) (map_dominant (scan_start0 a) 0) (map_encounter (scan_start0 a) 0)"
    using counts_ok_start0 [of a] by (simp add: N)
  ultimately have "scan_eq
     (predict_passes (scan_start0 a) dt 0 (N_dominant r) (sim_N r - N_dominant r) (sim_N r - N_dominant r))
     (predict_passes (scan_start0 r) dt 0 (N_dominant r) (sim_N r - N_dominant r) (sim_N r - N_dominant r))"
    by (rule scan_eq_passes)
  then show ?thesis
    by (simp only: predict_scan_0 N)
qed

lemma predict_same_N:
  assumes "\<not> int s + 1 \<ge> Nmaxshells r"
    and "sim_N (cs (predict_scan r dt s)) = sim_N (predict_scan r dt s)"
  shows "reb_mercurana_encounter_predict cs r dt s
     = Some (if collisions_N (predict_scan r dt s) = 0 then predict_scan r dt s
             else (cs (predict_scan r dt s))\<lparr>collisions_N := 0\<rparr>)"
  using assms by (subst reb_mercurana_encounter_predict.simps) (simp add: Let_def)

text \<open>
  For shell 0 two calls in succession agree. The setup of shell 0 resets the markers (lines
  203 to 205), so the second call repeats what the first has done: both calls return, and
  the maps of all shells hold the same sequences after the second call as after the first.
  The collision search, if it is called, changes nothing of what the prediction reads.
\<close>

lemma predict_shell0_twice:
  assumes N: "N_dominant r \<le> sim_N r"
    and fr: "\<And>a. scan_frame a (cs a) 0"
    and mem: "\<And>a. shell_members (cs a) = shell_members a"
  shows "\<exists>r1 r2. reb_mercurana_encounter_predict cs r dt 0 = Some r1
     \<and> reb_mercurana_encounter_predict cs r1 dt 0 = Some r2
     \<and> shell_members r2 = shell_members r1"
proof (cases "int 0 + 1 \<ge> Nmaxshells r")
  case True
  then have "reb_mercurana_encounter_predict cs r dt 0 = Some r"
    by (rule predict_guard)
  then show ?thesis by auto
next
  case False
  define a where "a = predict_scan r dt 0"
  define r1 where "r1 = (if collisions_N a = 0 then a else (cs a)\<lparr>collisions_N := 0\<rparr>)"
  have sN: "sim_N (cs x) = sim_N x" for x
    using fr [of x] by (simp add: scan_frame_def)
  have 1: "reb_mercurana_encounter_predict cs r dt 0 = Some r1"
    unfolding r1_def a_def using False sN by (rule predict_same_N)
  have fa: "scan_frame (scan_start0 r) a 0"
    unfolding a_def by (rule scan_frame_scan0 [OF N])
  have f1: "scan_frame (scan_start0 r) r1 0"
    unfolding r1_def using fa scan_frame_trans [OF fa fr [of a]] by simp
  define a2 where "a2 = predict_scan r1 dt 0"
  have eq: "scan_eq a2 a"
    unfolding a2_def a_def by (rule predict_scan_0_restart [OF f1])
  have "Nmaxshells r1 = Nmaxshells r"
    using f1 by (simp add: scan_frame_def scan_start0_Nmaxshells)
  with False have g: "\<not> int 0 + 1 \<ge> Nmaxshells r1" by simp
  define r2 where "r2 = (if collisions_N a2 = 0 then a2 else (cs a2)\<lparr>collisions_N := 0\<rparr>)"
  have 2: "reb_mercurana_encounter_predict cs r1 dt 0 = Some r2"
    unfolding r2_def a2_def using g sN by (rule predict_same_N)
  have m1: "shell_members r1 = shell_members a"
    by (simp add: r1_def mem)
  have m2: "shell_members r2 = shell_members a2"
    by (simp add: r2_def mem)
  from scan_eq_members [OF eq] m1 m2 have "shell_members r2 = shell_members r1"
    by simp
  with 1 2 show ?thesis by blast
qed

lemma c1_eval:
  "seq_dominant c1_first 2 = [0, 1] \<and> seq_dominant c1_second 2 = []
   \<and> collisions_N c1_shell0 = 0 \<and> collisions_N c1_first = 0 \<and> collisions_N c1_second = 0
   \<and> Nmaxshells c1_shell0 = 3 \<and> Nmaxshells c1_first = 3"
proof -
  have "let r0 = predict_scan (blank 2 2 3 (\<lambda>_. ball 0 0)) (Fin 1) 0;
            r1 = predict_scan r0 (Fin 1) 1; r2 = predict_scan r1 (Fin 1) 1 in
     seq_dominant r1 2 = [0, 1] \<and> seq_dominant r2 2 = []
     \<and> collisions_N r0 = 0 \<and> collisions_N r1 = 0 \<and> collisions_N r2 = 0
     \<and> Nmaxshells r0 = 3 \<and> Nmaxshells r1 = 3"
    by (simp add: scan_eval cong: let_weak_cong fold_weak_cong)
  then show ?thesis
    unfolding Let_def c1_second_def c1_first_def c1_shell0_def c1_start_def .
qed

lemma c1_second_eval:
  "Nmaxshells c1_second = 3 \<and> seq_dominant c1_second 1 = [0, 1]
   \<and> shellN_dominant c1_second 1 = 2 \<and> shellN_subdominant c1_second 1 = 0
   \<and> shellN_encounter c1_second 1 = 0
   \<and> map_dominant c1_second 1 0 = 0 \<and> map_dominant c1_second 1 1 = 1
   \<and> inshell_dominant c1_second 0 = 2 \<and> inshell_dominant c1_second 1 = 2
   \<and> shellN_dominant c1_second 2 = 0 \<and> shellN_encounter c1_second 2 = 0"
proof -
  have "let r0 = predict_scan (blank 2 2 3 (\<lambda>_. ball 0 0)) (Fin 1) 0;
            r1 = predict_scan r0 (Fin 1) 1; r2 = predict_scan r1 (Fin 1) 1 in
     Nmaxshells r2 = 3 \<and> seq_dominant r2 1 = [0, 1]
     \<and> shellN_dominant r2 1 = 2 \<and> shellN_subdominant r2 1 = 0 \<and> shellN_encounter r2 1 = 0
     \<and> map_dominant r2 1 0 = 0 \<and> map_dominant r2 1 1 = 1
     \<and> inshell_dominant r2 0 = 2 \<and> inshell_dominant r2 1 = 2
     \<and> shellN_dominant r2 2 = 0 \<and> shellN_encounter r2 2 = 0"
    by (simp add: scan_eval cong: let_weak_cong fold_weak_cong)
  then show ?thesis
    unfolding Let_def c1_second_def c1_first_def c1_shell0_def c1_start_def .
qed

text \<open>
  After the second prediction the loops of the drift step of shell 1 move nobody: the two
  particles of the dominant map of shell 1 are marked with 2.
\<close>

lemma c1_second_drift: "drift_advance c1_second (Fin 1) 1 = c1_second"
  using c1_second_eval
  by (simp add: drift_advance_def Let_def upt_conv_Cons advance_dominant_def)

text \<open>
  Claim C1. A second prediction of a shell other than 0 does not repeat the first. Two
  dominant particles at the same place are in shell 1 after the prediction of shell 0. A
  first prediction of shell 1 puts both into shell 2 and marks them with 2. A second one,
  called on the state that the first has returned, empties shell 2 (lines 181 to 183) and
  finds no particle marked with 1 to put into it: unlike the setup of shell 0 (lines 203
  to 205), it does not reset the markers. The drift step of shell 1 that makes this second
  call then moves neither particle, neither at shell 1, whose test is \<^verbatim>\<open>inshell_dominant[mi]==shell\<close>,
  nor through shell 2, which is empty, and advances the time.
\<close>

theorem second_prediction_empties_next_shell:
  "reb_mercurana_encounter_predict (\<lambda>r. r) c1_shell0 (Fin 1) 1 = Some c1_first
   \<and> reb_mercurana_encounter_predict (\<lambda>r. r) c1_first (Fin 1) 1 = Some c1_second
   \<and> seq_dominant c1_first 2 = [0, 1] \<and> seq_dominant c1_second 2 = []
   \<and> seq_dominant c1_second 1 = [0, 1]
   \<and> inshell_dominant c1_second 0 = 2 \<and> inshell_dominant c1_second 1 = 2
   \<and> reb_integrator_mercurana_drift_step False (\<lambda>r. r) eos_idle eos_idle eos_idle c1_first (Fin 1) 1
       = Some (c1_second\<lparr>sim_t := sim_t c1_second + Fin 1\<rparr>)"
proof -
  have 1: "reb_mercurana_encounter_predict (\<lambda>r. r) c1_shell0 (Fin 1) 1 = Some c1_first"
    unfolding c1_first_def using c1_eval
    by (intro predict_no_collision) (simp_all add: c1_first_def)
  have 2: "reb_mercurana_encounter_predict (\<lambda>r. r) c1_first (Fin 1) 1 = Some c1_second"
    unfolding c1_second_def using c1_eval
    by (intro predict_no_collision) (simp_all add: c1_second_def)
  have e: "shellN_encounter c1_second (1 + 1) = 0" "shellN_dominant c1_second (1 + 1) = 0"
    using c1_second_eval by (simp_all only: one_add_one)
  have 3: "reb_integrator_mercurana_drift_step False (\<lambda>r. r) eos_idle eos_idle eos_idle c1_first
       (Fin 1) 1 = Some (c1_second\<lparr>sim_t := sim_t c1_second + Fin 1\<rparr>)"
    unfolding reb_integrator_mercurana_drift_step_def
    using e c1_second_eval 2 c1_second_drift by (simp add: Let_def)
  from 1 2 3 c1_eval c1_second_eval show ?thesis by blast
qed

section \<open>The collisions that the passes record\<close>

lemma fold_upt_inv:
  assumes "m \<le> n" and "P m r" and "\<And>i r. m \<le> i \<Longrightarrow> i < n \<Longrightarrow> P i r \<Longrightarrow> P (Suc i) (f i r)"
  shows "P n (fold f [m..<n] r)"
  using assms
proof (induction n arbitrary: r)
  case 0
  then show ?case by simp
next
  case (Suc n)
  show ?case
  proof (cases "m = Suc n")
    case True
    with Suc.prems show ?thesis by simp
  next
    case False
    with Suc.prems have mn: "m \<le> n" by simp
    have "P n (fold f [m..<n] r)"
      using Suc.prems by (intro Suc.IH mn) auto
    then have "P (Suc n) (f n (fold f [m..<n] r))"
      using Suc.prems(3) mn by simp
    then show ?thesis using mn by simp
  qed
qed

lemma record_collision_sel:
  "collisions_N (reb_mercurana_record_collision a mi mj) = collisions_N a + 1"
  "collisions (reb_mercurana_record_collision a mi mj) k
     = (if k = collisions_N a
        then \<lparr>c_p1 = mi, c_p2 = mj,
              c_gb = \<lparr>shiftx = p_x (particles a mi), shifty = p_y (particles a mi),
                shiftz = p_z (particles a mi), shiftvx = p_vx (particles a mi),
                shiftvy = p_vy (particles a mi), shiftvz = p_vz (particles a mi)\<rparr>\<rparr>
        else collisions a k)"
  by (simp_all add: reb_mercurana_record_collision_def Let_def)

lemma recorded_record_collision_keep:
  assumes "recorded a x y"
  shows "recorded (reb_mercurana_record_collision a mi mj) x y"
proof -
  from assms obtain k where k: "k < collisions_N a" "c_p1 (collisions a k) = x"
    "c_p2 (collisions a k) = y"
    by (auto simp: recorded_def)
  then have "k < collisions_N (reb_mercurana_record_collision a mi mj)"
    "c_p1 (collisions (reb_mercurana_record_collision a mi mj) k) = x"
    "c_p2 (collisions (reb_mercurana_record_collision a mi mj) k) = y"
    by (simp_all add: record_collision_sel)
  then show ?thesis
    unfolding recorded_def by blast
qed

lemma recorded_record_collision_new:
  "recorded (reb_mercurana_record_collision a mi mj) mi mj"
proof -
  have "collisions_N a < collisions_N (reb_mercurana_record_collision a mi mj)"
    "c_p1 (collisions (reb_mercurana_record_collision a mi mj) (collisions_N a)) = mi"
    "c_p2 (collisions (reb_mercurana_record_collision a mi mj) (collisions_N a)) = mj"
    by (simp_all add: record_collision_sel)
  then show ?thesis
    unfolding recorded_def by blast
qed

lemma recorded_check_collision_keep:
  "recorded a x y \<Longrightarrow> recorded (check_collision a v mi mj) x y"
  by (simp add: check_collision_def Let_def recorded_record_collision_keep)

lemma recorded_check_collision_new:
  assumes "collision a = REB_COLLISION_DIRECT"
    and "v < (p_r (particles a mi) + p_r (particles a mj)) * (p_r (particles a mi) + p_r (particles a mj))"
  shows "recorded (check_collision a v mi mj) mi mj"
  using assms by (simp add: check_collision_def Let_def recorded_record_collision_new)

lemma recorded_frame [simp]:
  "recorded (promote_dominant a s m) x y = recorded a x y"
  "recorded (promote_subdominant a s m) x y = recorded a x y"
  "recorded (promote_encounter a s m) x y = recorded a x y"
  "recorded (lower_maxdrift_dominant a m v) x y = recorded a x y"
  "recorded (lower_maxdrift_encounter a m v) x y = recorded a x y"
  by (simp_all add: recorded_def promote_dominant_def promote_subdominant_def
      promote_encounter_def lower_maxdrift_dominant_def lower_maxdrift_encounter_def)

lemma pass_frame_refl: "pass_frame b b s"
  by (simp add: pass_frame_def)

lemma pass_frame_step [simp]:
  "pass_frame b (check_collision a v i j) s = pass_frame b a s"
  "pass_frame b (promote_dominant a s m) s = pass_frame b a s"
  "pass_frame b (promote_subdominant a s m) s = pass_frame b a s"
  "pass_frame b (promote_encounter a s m) s = pass_frame b a s"
  "pass_frame b (lower_maxdrift_dominant a m v) s = pass_frame b a s"
  "pass_frame b (lower_maxdrift_encounter a m v) s = pass_frame b a s"
  by (simp_all add: pass_frame_def promote_dominant_def promote_subdominant_def
      promote_encounter_def lower_maxdrift_dominant_def lower_maxdrift_encounter_def upd2_apply)

text \<open>Every pair body keeps the frame and the records; the body of an overlapping pair adds
  its record.\<close>

lemma pair_keep:
  assumes "pass_frame b a s"
  shows "pass_frame b (predict_dominant_dominant_pair a dt s mi j) s"
    and "pass_frame b (predict_dominant_subdominant_pair a dt s mi j) s"
    and "pass_frame b (predict_encounter_encounter_pair a dt s mi j) s"
    and "recorded a x y \<Longrightarrow> recorded (predict_dominant_dominant_pair a dt s mi j) x y"
    and "recorded a x y \<Longrightarrow> recorded (predict_dominant_subdominant_pair a dt s mi j) x y"
    and "recorded a x y \<Longrightarrow> recorded (predict_encounter_encounter_pair a dt s mi j) x y"
  using assms
  by (simp_all add: predict_dominant_dominant_pair_def predict_dominant_subdominant_pair_def
      predict_encounter_encounter_pair_def Let_def recorded_check_collision_keep)

lemma pair_new:
  assumes "pass_frame b a s"
  shows "overlap b dt mi (map_dominant b s j)
      \<Longrightarrow> recorded (predict_dominant_dominant_pair a dt s mi j) mi (map_dominant b s j)"
    and "overlap b dt mi (map_subdominant b s j)
      \<Longrightarrow> recorded (predict_dominant_subdominant_pair a dt s mi j) mi (map_subdominant b s j)"
    and "overlap b dt mi (map_encounter b s j)
      \<Longrightarrow> recorded (predict_encounter_encounter_pair a dt s mi j) mi (map_encounter b s j)"
  using assms
  by (simp_all add: predict_dominant_dominant_pair_def predict_dominant_subdominant_pair_def
      predict_encounter_encounter_pair_def Let_def recorded_check_collision_new overlap_def
      pass_frame_def)


lemma keeps_pair:
  assumes "keeps b s g x y a"
  shows "keeps b s g x y (predict_dominant_dominant_pair a dt s mi j)"
    and "keeps b s g x y (predict_dominant_subdominant_pair a dt s mi j)"
    and "keeps b s g x y (predict_encounter_encounter_pair a dt s mi j)"
  using assms by (auto simp: keeps_def intro: pair_keep)

lemma keeps_pass:
  assumes "keeps b s g x y a"
  shows "keeps b s g x y (predict_dominant_dominant a dt s nD)"
    and "keeps b s g x y (predict_dominant_subdominant a dt s nD nS)"
    and "keeps b s g x y (predict_encounter_encounter a dt s nE)"
proof -
  have inner: "keeps b s g x y (fold f xs a')"
    if "keeps b s g x y a'" and "\<And>j r. keeps b s g x y r \<Longrightarrow> keeps b s g x y (f j r)" for f xs a'
    using that by (intro fold_inv [where P = "keeps b s g x y"]) auto
  show "keeps b s g x y (predict_dominant_dominant a dt s nD)"
    unfolding predict_dominant_dominant_def
    by (rule inner [OF assms]) (simp add: Let_def inner keeps_pair)
  show "keeps b s g x y (predict_dominant_subdominant a dt s nD nS)"
    unfolding predict_dominant_subdominant_def
    by (rule inner [OF assms]) (simp add: Let_def inner keeps_pair)
  show "keeps b s g x y (predict_encounter_encounter a dt s nE)"
    unfolding predict_encounter_encounter_def
    by (rule inner [OF assms]) (simp add: Let_def inner keeps_pair)
qed

lemma keeps_fold:
  assumes "keeps b s g x y a" and "\<And>j r. keeps b s g x y r \<Longrightarrow> keeps b s g x y (f j r)"
  shows "keeps b s g x y (fold f xs a)"
  using assms by (intro fold_inv [where P = "keeps b s g x y"]) auto

lemma dd_records:
  assumes fr: "pass_frame b a s" and ij: "i0 < j0" "j0 < nD"
    and ov: "overlap b dt (map_dominant b s i0) (map_dominant b s j0)"
  shows "keeps b s True (map_dominant b s i0) (map_dominant b s j0)
           (predict_dominant_dominant a dt s nD)"
proof -
  let ?x = "map_dominant b s i0" and ?y = "map_dominant b s j0"
  let ?P = "\<lambda>i. keeps b s (i0 < i) ?x ?y"
  have "?P nD (predict_dominant_dominant a dt s nD)"
    unfolding predict_dominant_dominant_def
  proof (rule fold_upt_inv [where P = ?P])
    show "?P 0 a" using fr by (simp add: keeps_def)
  next
    fix i r assume i: "i < nD" and P: "?P i r"
    then have mi: "map_dominant r s i = map_dominant b s i"
      by (simp add: keeps_def pass_frame_def)
    let ?inner = "fold (\<lambda>j r. predict_dominant_dominant_pair r dt s (map_dominant b s i) j) [i + 1..<nD] r"
    have "?P (Suc i) ?inner"
    proof (cases "i = i0")
      case True
      let ?Q = "\<lambda>j. keeps b s (j0 < j) ?x ?y"
      have "?Q nD ?inner"
      proof (rule fold_upt_inv [where P = ?Q])
        show "i + 1 \<le> nD" using i by simp
        show "?Q (i + 1) r" using P ij True by (simp add: keeps_def)
      next
        fix j r' assume j: "i + 1 \<le> j" "j < nD" and Q: "?Q j r'"
        show "?Q (Suc j) (predict_dominant_dominant_pair r' dt s (map_dominant b s i) j)"
        proof (cases "j = j0")
          case jj: True
          from Q have "pass_frame b r' s" by (simp add: keeps_def)
          then show ?thesis
            using pair_new(1) [of b r' s dt ?x j0] pair_keep(1) [of b r' s] ov True jj
            by (simp add: keeps_def)
        next
          case False
          with Q have "keeps b s (j0 < Suc j) ?x ?y r'"
            by (auto simp: keeps_def less_Suc_eq)
          then show ?thesis by (rule keeps_pair)
        qed
      qed
      with ij True show ?thesis by (simp add: keeps_def)
    next
      case False
      with P have "keeps b s (i0 < Suc i) ?x ?y r"
        by (auto simp: keeps_def less_Suc_eq)
      then show ?thesis by (rule keeps_fold) (rule keeps_pair)
    qed
    then show "?P (Suc i) (let mi = map_dominant r s i in
        fold (\<lambda>j r. predict_dominant_dominant_pair r dt s mi j) [i + 1..<nD] r)"
      by (simp add: mi)
  qed simp
  with ij show ?thesis by (simp add: keeps_def)
qed

lemma ds_records:
  assumes fr: "pass_frame b a s" and ij: "i0 < nD" "j0 < nS"
    and ov: "overlap b dt (map_dominant b s i0) (map_subdominant b s j0)"
  shows "keeps b s True (map_dominant b s i0) (map_subdominant b s j0)
           (predict_dominant_subdominant a dt s nD nS)"
proof -
  let ?x = "map_dominant b s i0" and ?y = "map_subdominant b s j0"
  let ?P = "\<lambda>i. keeps b s (i0 < i) ?x ?y"
  have "?P nD (predict_dominant_subdominant a dt s nD nS)"
    unfolding predict_dominant_subdominant_def
  proof (rule fold_upt_inv [where P = ?P])
    show "?P 0 a" using fr by (simp add: keeps_def)
  next
    fix i r assume i: "i < nD" and P: "?P i r"
    then have mi: "map_dominant r s i = map_dominant b s i"
      by (simp add: keeps_def pass_frame_def)
    let ?inner = "fold (\<lambda>j r. predict_dominant_subdominant_pair r dt s (map_dominant b s i) j) [0..<nS] r"
    have "?P (Suc i) ?inner"
    proof (cases "i = i0")
      case True
      let ?Q = "\<lambda>j. keeps b s (j0 < j) ?x ?y"
      have "?Q nS ?inner"
      proof (rule fold_upt_inv [where P = ?Q])
        show "?Q 0 r" using P by (simp add: keeps_def)
      next
        fix j r' assume j: "j < nS" and Q: "?Q j r'"
        show "?Q (Suc j) (predict_dominant_subdominant_pair r' dt s (map_dominant b s i) j)"
        proof (cases "j = j0")
          case jj: True
          from Q have "pass_frame b r' s" by (simp add: keeps_def)
          then show ?thesis
            using pair_new(2) [of b r' s dt ?x j0] pair_keep(2) [of b r' s] ov True jj
            by (simp add: keeps_def)
        next
          case False
          with Q have "keeps b s (j0 < Suc j) ?x ?y r'"
            by (auto simp: keeps_def less_Suc_eq)
          then show ?thesis by (rule keeps_pair)
        qed
      qed simp
      with ij True show ?thesis by (simp add: keeps_def)
    next
      case False
      with P have "keeps b s (i0 < Suc i) ?x ?y r"
        by (auto simp: keeps_def less_Suc_eq)
      then show ?thesis by (rule keeps_fold) (rule keeps_pair)
    qed
    then show "?P (Suc i) (let mi = map_dominant r s i in
        fold (\<lambda>j r. predict_dominant_subdominant_pair r dt s mi j) [0..<nS] r)"
      by (simp add: mi)
  qed simp
  with ij show ?thesis by (simp add: keeps_def)
qed

lemma ee_records:
  assumes fr: "pass_frame b a s" and ij: "i0 < j0" "j0 < nE"
    and ov: "overlap b dt (map_encounter b s i0) (map_encounter b s j0)"
  shows "keeps b s True (map_encounter b s i0) (map_encounter b s j0)
           (predict_encounter_encounter a dt s nE)"
proof -
  let ?x = "map_encounter b s i0" and ?y = "map_encounter b s j0"
  let ?P = "\<lambda>i. keeps b s (i0 < i) ?x ?y"
  have "?P nE (predict_encounter_encounter a dt s nE)"
    unfolding predict_encounter_encounter_def
  proof (rule fold_upt_inv [where P = ?P])
    show "?P 0 a" using fr by (simp add: keeps_def)
  next
    fix i r assume i: "i < nE" and P: "?P i r"
    then have mi: "map_encounter r s i = map_encounter b s i"
      by (simp add: keeps_def pass_frame_def)
    let ?inner = "fold (\<lambda>j r. predict_encounter_encounter_pair r dt s (map_encounter b s i) j) [i + 1..<nE] r"
    have "?P (Suc i) ?inner"
    proof (cases "i = i0")
      case True
      let ?Q = "\<lambda>j. keeps b s (j0 < j) ?x ?y"
      have "?Q nE ?inner"
      proof (rule fold_upt_inv [where P = ?Q])
        show "i + 1 \<le> nE" using i by simp
        show "?Q (i + 1) r" using P ij True by (simp add: keeps_def)
      next
        fix j r' assume j: "i + 1 \<le> j" "j < nE" and Q: "?Q j r'"
        show "?Q (Suc j) (predict_encounter_encounter_pair r' dt s (map_encounter b s i) j)"
        proof (cases "j = j0")
          case jj: True
          from Q have "pass_frame b r' s" by (simp add: keeps_def)
          then show ?thesis
            using pair_new(3) [of b r' s dt ?x j0] pair_keep(3) [of b r' s] ov True jj
            by (simp add: keeps_def)
        next
          case False
          with Q have "keeps b s (j0 < Suc j) ?x ?y r'"
            by (auto simp: keeps_def less_Suc_eq)
          then show ?thesis by (rule keeps_pair)
        qed
      qed
      with ij True show ?thesis by (simp add: keeps_def)
    next
      case False
      with P have "keeps b s (i0 < Suc i) ?x ?y r"
        by (auto simp: keeps_def less_Suc_eq)
      then show ?thesis by (rule keeps_fold) (rule keeps_pair)
    qed
    then show "?P (Suc i) (let mi = map_encounter r s i in
        fold (\<lambda>j r. predict_encounter_encounter_pair r dt s mi j) [i + 1..<nE] r)"
      by (simp add: mi)
  qed simp
  with ij show ?thesis by (simp add: keeps_def)
qed

lemma passes_record:
  shows "i < j \<Longrightarrow> j < nD \<Longrightarrow> overlap b dt (map_dominant b s i) (map_dominant b s j)
      \<Longrightarrow> recorded (predict_passes b dt s nD nS nE) (map_dominant b s i) (map_dominant b s j)"
    and "i < nD \<Longrightarrow> j < nS \<Longrightarrow> overlap b dt (map_dominant b s i) (map_subdominant b s j)
      \<Longrightarrow> recorded (predict_passes b dt s nD nS nE) (map_dominant b s i) (map_subdominant b s j)"
    and "i < j \<Longrightarrow> j < nE \<Longrightarrow> overlap b dt (map_encounter b s i) (map_encounter b s j)
      \<Longrightarrow> recorded (predict_passes b dt s nD nS nE) (map_encounter b s i) (map_encounter b s j)"
proof -
  have 0: "keeps b s False x y b" for x y
    by (simp add: keeps_def pass_frame_refl)
  {
    assume "i < j" "j < nD" "overlap b dt (map_dominant b s i) (map_dominant b s j)"
    from dd_records [OF pass_frame_refl this]
    have "keeps b s True (map_dominant b s i) (map_dominant b s j) (predict_dominant_dominant b dt s nD)" .
    then have "keeps b s True (map_dominant b s i) (map_dominant b s j) (predict_passes b dt s nD nS nE)"
      unfolding predict_passes_def Let_def by (intro keeps_pass(3) keeps_pass(2))
    then show "recorded (predict_passes b dt s nD nS nE) (map_dominant b s i) (map_dominant b s j)"
      by (simp add: keeps_def)
  }
  {
    assume a: "i < nD" "j < nS" "overlap b dt (map_dominant b s i) (map_subdominant b s j)"
    have "pass_frame b (predict_dominant_dominant b dt s nD) s"
      using keeps_pass(1) [OF 0] by (simp add: keeps_def)
    from ds_records [OF this a]
    have "keeps b s True (map_dominant b s i) (map_subdominant b s j)
       (predict_dominant_subdominant (predict_dominant_dominant b dt s nD) dt s nD nS)" .
    then have "keeps b s True (map_dominant b s i) (map_subdominant b s j) (predict_passes b dt s nD nS nE)"
      unfolding predict_passes_def Let_def by (rule keeps_pass(3))
    then show "recorded (predict_passes b dt s nD nS nE) (map_dominant b s i) (map_subdominant b s j)"
      by (simp add: keeps_def)
  }
  {
    assume a: "i < j" "j < nE" "overlap b dt (map_encounter b s i) (map_encounter b s j)"
    have "pass_frame b (predict_dominant_subdominant (predict_dominant_dominant b dt s nD) dt s nD nS) s"
      using keeps_pass(2) [OF keeps_pass(1) [OF 0]] by (simp add: keeps_def)
    from ee_records [OF this a]
    show "recorded (predict_passes b dt s nD nS nE) (map_encounter b s i) (map_encounter b s j)"
      by (simp add: keeps_def predict_passes_def Let_def)
  }
qed

lemma scan_pairs_record:
  assumes "(x, y) \<in> set (scan_pairs b s nD nS nE)" and "overlap b dt x y"
  shows "recorded (predict_passes b dt s nD nS nE) x y"
proof -
  from assms(1) have
    "(\<exists>i j. i < j \<and> j < nD \<and> x = map_dominant b s i \<and> y = map_dominant b s j)
     \<or> (\<exists>i j. i < nD \<and> j < nS \<and> x = map_dominant b s i \<and> y = map_subdominant b s j)
     \<or> (\<exists>i j. i < j \<and> j < nE \<and> x = map_encounter b s i \<and> y = map_encounter b s j)"
    by (auto simp: scan_pairs_def Suc_le_eq; blast)
  then consider
    (dd) i j where "i < j" "j < nD" "x = map_dominant b s i" "y = map_dominant b s j"
    | (ds) i j where "i < nD" "j < nS" "x = map_dominant b s i" "y = map_subdominant b s j"
    | (ee) i j where "i < j" "j < nE" "x = map_encounter b s i" "y = map_encounter b s j"
    by blast
  then show ?thesis
  proof cases
    case dd
    with assms(2) show ?thesis using passes_record(1) [of i j nD b dt s nS nE] by simp
  next
    case ds
    with assms(2) show ?thesis using passes_record(2) [of i nD j nS b dt s nE] by simp
  next
    case ee
    with assms(2) show ?thesis using passes_record(3) [of i j nE b dt s nD nS] by simp
  qed
qed

lemma predict_scan_passes:
  "predict_scan r dt s
     = predict_passes (scan_start r dt s) dt s (scan_nD r s) (scan_nS r s) (scan_nE r s)"
proof (cases "s = 0")
  case True
  then show ?thesis
    by (simp add: predict_scan_0 scan_start_def scan_nD_def scan_nS_def scan_nE_def)
next
  case False
  then show ?thesis
    by (simp add: predict_scan_def Let_def scan_start_def scan_nD_def scan_nS_def scan_nE_def)
qed

lemma recorded_collisions_N: "recorded a x y \<Longrightarrow> collisions_N a \<noteq> 0"
  by (auto simp: recorded_def)

lemma scan_start0_particles:
  "particles (scan_start0 r) = particles r" "collision (scan_start0 r) = collision r"
  by (simp_all add: scan_start0_def predict_setup_shell0_eq predict_reset_def)

text \<open>
  At the deepest shell the prediction returns at once (line 175). Two particles of radius 1
  at the same place, with two shells and the direct collision search: the prediction of
  shell 0 puts both into shell 1. The prediction of shell 1 then returns the state as it
  is: the two particles of the encounter map of shell 1 overlap, but no collision is
  recorded and the collision search is not called (the log has the one line of the search
  of shell 0).
\<close>

lemma deepest_shell_is_not_scanned:
  "Nmaxshells c2_shell0 = 2 \<and> seq_encounter c2_shell0 1 = [0, 1]
   \<and> overlap c2_shell0 (Fin 1) 0 1
   \<and> reb_mercurana_encounter_predict logging_search c2_shell0 (Fin 1) 1 = Some c2_shell0
   \<and> collisions_N c2_shell0 = 0 \<and> messages c2_shell0 = [Warning ''reb_collision_search'']"
proof -
  have o: "overlap c2_shell0 (Fin 1) 0 1"
    by (simp add: overlap_def c2_shell0_sel rmin2_ball p_r_ball)
  have g: "reb_mercurana_encounter_predict logging_search c2_shell0 (Fin 1) 1 = Some c2_shell0"
    by (rule predict_guard) (simp add: c2_shell0_sel)
  from o g c2_shell0_sel show ?thesis by blast
qed

text \<open>
  What the passes do record, when shell \<open>s + 1\<close> exists: every pair that overlaps during
  the drift, with the direct collision search, among the pairs below the counts that the
  function has read when it was entered (lines 156 to 158; for shell 0, lines 190 to 192).
  The collision search is then called on that state. A particle that the check of the
  maximal drift appends to the encounter map of shell \<open>s\<close> is beyond the count
  \<open>scan_nE r s\<close>, and \<open>scan_pairs\<close> has no pair for it.
\<close>

lemma entry_pairs_recorded:
  assumes "int s + 1 < Nmaxshells r" and "N_dominant r \<le> sim_N r"
    and "(x, y) \<in> set (scan_pairs (scan_start r dt s) s (scan_nD r s) (scan_nS r s) (scan_nE r s))"
    and "overlap (scan_start r dt s) dt x y"
  shows "recorded (predict_scan r dt s) x y
    \<and> (sim_N (cs (predict_scan r dt s)) = sim_N (predict_scan r dt s)
       \<longrightarrow> reb_mercurana_encounter_predict cs r dt s
           = Some ((cs (predict_scan r dt s))\<lparr>collisions_N := 0\<rparr>))"
proof -
  have rec: "recorded (predict_scan r dt s) x y"
    unfolding predict_scan_passes using assms(3,4) by (rule scan_pairs_record)
  then have "collisions_N (predict_scan r dt s) \<noteq> 0"
    by (rule recorded_collisions_N)
  with assms(1) rec show ?thesis
    by (simp add: predict_collision)
qed

lemma c2_drift_eval:
  "seq_encounter c2_drift_after 1 = [0, 1, 2] \<and> seq_encounter c2_drift_after 2 = [0, 1]
   \<and> inshell_encounter c2_drift_after 2 = 1
   \<and> particles c2_drift_after 0 = ball 5 (1 / 2) \<and> particles c2_drift_after 2 = ball 5 (1 / 2)
   \<and> collision c2_drift_after = REB_COLLISION_DIRECT
   \<and> collisions_N c2_drift_after = 0 \<and> messages c2_drift_after = []"
proof -
  have "let r' = predict_scan ((blank 3 0 3 ((\<lambda>_. ball 5 (1 / 2))(1 := ball 6 (1 / 2))))
     \<lparr>collision := REB_COLLISION_DIRECT,
      p0 := (\<lambda>_. ball 0 (1 / 2))(1 := ball 1 (1 / 2), 2 := ball 5 (1 / 2)),
      shellN_encounter := (\<lambda>_. 0)(0 := 3, 1 := 2),
      shellN_subdominant := (\<lambda>_. 0)(0 := 3),
      map_encounter := (\<lambda>_ k. k),
      map_subdominant := (\<lambda>_ _. 0)(0 := (\<lambda>k. k)),
      inshell_encounter := (\<lambda>_. 0)(0 := 1, 1 := 1),
      maxdrift_encounter := (\<lambda>_. Fin 1),
      maxdrift_dominant := (\<lambda>_. Fin 1),
      t_drifted := (\<lambda>_. Fin 0)(0 := Fin (1 / 2), 1 := Fin (1 / 2))\<rparr>) (Fin 1) 1 in
     seq_encounter r' 1 = [0, 1, 2] \<and> seq_encounter r' 2 = [0, 1]
     \<and> inshell_encounter r' 2 = 1
     \<and> particles r' 0 = ball 5 (1 / 2) \<and> particles r' 2 = ball 5 (1 / 2)
     \<and> collision r' = REB_COLLISION_DIRECT
     \<and> collisions_N r' = 0 \<and> messages r' = []"
    by (simp add: scan_eval ball_sel ball_upd p_r_ball cong: let_weak_cong fold_weak_cong)
  then show ?thesis
    unfolding Let_def c2_drift_after_def c2_drift_state_def .
qed

text \<open>
  Claim C2. The passes do not run over the whole of the maps of shell \<open>s\<close>. In
  \<open>c2_drift_state\<close>, with three shells and the direct collision search, the prediction of
  shell 1 finds that particle 0 has drifted by more than its maximal drift and that
  particle 2, of shell 0, comes closer to it than the sum of the critical radii; it
  appends particle 2 to the encounter map of shell 1, which then holds the particles 0, 1
  and 2 (lines 241 and 242). The pass over the pairs of the encounter map (line 321) runs
  up to the local \<^verbatim>\<open>shellN_encounter\<close>, which was read at line 156 and is 2: the only pair
  it visits is that of the particles 0 and 1. The particles 0 and 2 are at the same place
  and overlap; no collision is recorded for them and the collision search is not called.
\<close>

theorem appended_particle_is_not_scanned:
  "int 1 + 1 < Nmaxshells c2_drift_state \<and> seq_encounter c2_drift_state 1 = [0, 1]
   \<and> seq_encounter c2_drift_state 0 = [0, 1, 2]
   \<and> reb_mercurana_encounter_predict logging_search c2_drift_state (Fin 1) 1
       = Some c2_drift_after
   \<and> seq_encounter c2_drift_after 1 = [0, 1, 2] \<and> inshell_encounter c2_drift_after 2 = 1
   \<and> seq_encounter c2_drift_after 2 = [0, 1]
   \<and> overlap c2_drift_after (Fin 1) 0 2
   \<and> collisions_N c2_drift_after = 0 \<and> messages c2_drift_after = []"
proof -
  have n: "int 1 + 1 < Nmaxshells c2_drift_state"
    by (simp add: c2_drift_state_def blank_sel)
  have s: "seq_encounter c2_drift_state 1 = [0, 1]" "seq_encounter c2_drift_state 0 = [0, 1, 2]"
    by (simp_all add: c2_drift_state_def seq_encounter_def upt_conv_Cons)
  have p: "reb_mercurana_encounter_predict logging_search c2_drift_state (Fin 1) 1
       = Some c2_drift_after"
    unfolding c2_drift_after_def using n c2_drift_eval
    by (intro predict_no_collision) (simp_all add: c2_drift_after_def)
  have o: "overlap c2_drift_after (Fin 1) 0 2"
    using c2_drift_eval by (simp add: overlap_def rmin2_ball p_r_ball)
  from n s p o c2_drift_eval show ?thesis by blast
qed

section \<open>The maps of shell 0 after its prediction\<close>

text \<open>
  After the prediction of shell 0 the dominant map of shell 0 holds the particles below
  \<open>N_dominant\<close>, and the subdominant and the encounter map hold the others, in order: the
  loops of the drift step of shell 0 run over maps without repeated entries, and no particle
  of the dominant map is in one of the other two.
\<close>

lemma predict_scan_0_maps:
  assumes "N_dominant r \<le> sim_N r"
  shows "seq_dominant (predict_scan r dt 0) 0 = [0..<N_dominant r]"
    and "seq_subdominant (predict_scan r dt 0) 0 = [N_dominant r..<sim_N r]"
    and "seq_encounter (predict_scan r dt 0) 0 = [N_dominant r..<sim_N r]"
proof -
  have fr: "scan_frame (scan_start0 r) (predict_scan r dt 0) 0"
    by (rule scan_frame_scan0 [OF assms])
  then have c: "shellN_dominant (predict_scan r dt 0) 0 = N_dominant r"
    "shellN_subdominant (predict_scan r dt 0) 0 = sim_N r - N_dominant r"
    "shellN_encounter (predict_scan r dt 0) 0 = sim_N r - N_dominant r"
    "map_dominant (predict_scan r dt 0) 0 = map_dominant (scan_start0 r) 0"
    "map_subdominant (predict_scan r dt 0) 0 = map_subdominant (scan_start0 r) 0"
    "map_encounter (predict_scan r dt 0) 0 = map_encounter (scan_start0 r) 0"
    by (simp_all add: scan_frame_def scan_start0_sel)
  show "seq_dominant (predict_scan r dt 0) 0 = [0..<N_dominant r]"
    by (simp add: seq_dominant_def c scan_start0_sel list_eq_iff_nth_eq)
  show "seq_subdominant (predict_scan r dt 0) 0 = [N_dominant r..<sim_N r]"
    using assms by (simp add: seq_subdominant_def c scan_start0_sel list_eq_iff_nth_eq)
  show "seq_encounter (predict_scan r dt 0) 0 = [N_dominant r..<sim_N r]"
    using assms by (simp add: seq_encounter_def c scan_start0_sel list_eq_iff_nth_eq)
qed

lemma predict_scan_0_drift_ready:
  assumes "N_dominant r \<le> sim_N r"
  shows "distinct (seq_dominant (predict_scan r dt 0) 0)"
    and "distinct (seq_subdominant (predict_scan r dt 0) 0)"
    and "distinct (seq_encounter (predict_scan r dt 0) 0)"
    and "set (seq_dominant (predict_scan r dt 0) 0) \<inter> set (seq_subdominant (predict_scan r dt 0) 0) = {}"
    and "set (seq_dominant (predict_scan r dt 0) 0) \<inter> set (seq_encounter (predict_scan r dt 0) 0) = {}"
  by (auto simp: predict_scan_0_maps [OF assms])

end
